theory Spec2Isabelle
  imports Complex_Main "HOL-Library.AList" "HOL-Library.Multiset"
begin

section \<open>The in-memory transit data model of \<open>GTFSService\<close>\<close>

text \<open>
  The service keeps its static catalogue in JavaScript \<open>Map\<close> objects. A \<open>Map\<close>
  iterates in insertion order and the query methods iterate over it, so a \<open>Map\<close> is
  an association list here: \<open>Map.get\<close> is \<^const>\<open>map_of\<close>, \<open>Map.has\<close> asks whether the
  lookup succeeds, and \<open>Map.set\<close> is \<^const>\<open>AList.update\<close> (an existing key keeps its
  position and gets the new value, a new key goes to the end).

  JavaScript integers (Unix seconds, minutes, delays) are \<^typ>\<open>int\<close>; they stay far
  below \<open>2 ^ 53\<close>, where a double is exact. Coordinates and distances are doubles in the
  source and \<^typ>\<open>real\<close> here.

  Field names carry the record as a prefix where two interfaces of the source share a
  field name.
\<close>

type_synonym ('k, 'v) jsmap = "('k \<times> 'v) list"

definition Map_get :: "('k, 'v) jsmap \<Rightarrow> 'k \<Rightarrow> 'v option" where
  "Map_get m k = map_of m k"

definition Map_has :: "('k, 'v) jsmap \<Rightarrow> 'k \<Rightarrow> bool" where
  "Map_has m k = (map_of m k \<noteq> None)"

definition Map_set :: "('k, 'v) jsmap \<Rightarrow> 'k \<Rightarrow> 'v \<Rightarrow> ('k, 'v) jsmap" where
  "Map_set m k v = AList.update k v m"

definition Map_values :: "('k, 'v) jsmap \<Rightarrow> 'v list" where
  "Map_values m = map snd m"

record GTFSRoute =
  route_routeId :: string
  shortName :: string
  longName :: string
  routeColor :: string
  routeTextColor :: string

record GTFSTrip =
  trip_tripId :: string
  trip_routeId :: string
  tripHeadsign :: string

record GTFSStop =
  stop_stopId :: string
  stopName :: string
  stopDesc :: "string option"
  stopLat :: real
  stopLon :: real
  stopCode :: "string option"

record GTFSStopTime =
  st_tripId :: string
  arrivalTime :: string
  departureTime :: string
  st_stopId :: string
  stopSequence :: int

record TripDetails =
  td_trip :: GTFSTrip
  td_route :: GTFSRoute
  td_stopTimes :: "GTFSStopTime list"

text \<open>The private fields of the class that the query methods read.\<close>

record GTFSService =
  routes :: "(string, GTFSRoute) jsmap"
  trips :: "(string, GTFSTrip) jsmap"
  stops :: "(string, GTFSStop) jsmap"
  stopTimes :: "(string, GTFSStopTime list) jsmap"

subsection \<open>Strings\<close>

text \<open>
  \<open>s.split(sep)\<close> for a one-character separator: the pieces between the separators,
  never an empty array (\<open>"".split("-")\<close> is \<open>[""]\<close>).
\<close>

fun split_chr :: "char \<Rightarrow> string \<Rightarrow> string list" where
  "split_chr sep [] = [[]]"
| "split_chr sep (c # cs) =
     (if c = sep then [] # split_chr sep cs
      else (case split_chr sep cs of
              [] \<Rightarrow> [[c]]
            | w # ws \<Rightarrow> (c # w) # ws))"

text \<open>A string is truthy when it is not empty; \<open>a || b\<close> on strings.\<close>

definition str_or :: "string \<Rightarrow> string \<Rightarrow> string" where
  "str_or a b = (if a \<noteq> [] then a else b)"

text \<open>The decimal digits of an integer, as a template literal prints it.\<close>

definition digit_chr :: "nat \<Rightarrow> char" where
  "digit_chr d = ''0123456789'' ! d"

fun nat_digits :: "nat \<Rightarrow> string" where
  "nat_digits n = (if n < 10 then [digit_chr n] else nat_digits (n div 10) @ [digit_chr (n mod 10)])"

declare nat_digits.simps [simp del]

definition int_toString :: "int \<Rightarrow> string" where
  "int_toString i = (if i < 0 then CHR ''-'' # nat_digits (nat (- i)) else nat_digits (nat i))"

subsection \<open>getOrCreateRoute\<close>

text \<open>
  Returns the route and the updated route index. A route object is always truthy, so
  \<open>!route\<close> holds exactly when the lookup gave \<open>undefined\<close>. The array pattern
  \<open>[shortName]\<close> takes the first piece of the split.
\<close>

definition getOrCreateRoute ::
  "(string, GTFSRoute) jsmap \<Rightarrow> string \<Rightarrow> GTFSRoute \<times> (string, GTFSRoute) jsmap" where
  "getOrCreateRoute rts rid =
     (case Map_get rts rid of
        Some route \<Rightarrow> (route, rts)
      | None \<Rightarrow>
          (let sn = (case split_chr CHR ''-'' rid of [] \<Rightarrow> [] | w # _ \<Rightarrow> w);
               route = \<lparr> route_routeId = rid,
                         shortName = str_or sn rid,
                         longName = rid,
                         routeColor = ''000000'',
                         routeTextColor = ''FFFFFF'' \<rparr>
           in (route, Map_set rts rid route)))"

subsection \<open>Status strings\<close>

definition getArrivalStatus :: "int \<Rightarrow> int \<Rightarrow> string" where
  "getArrivalStatus minutesUntil delaySeconds =
     (if minutesUntil \<le> 1 then ''Arriving''
      else if minutesUntil \<le> 2 then ''Due''
      else if delaySeconds > 300 then ''Delayed''
      else if delaySeconds < - 60 then ''Early''
      else int_toString minutesUntil @ '' min'')"

definition getDepartureStatus :: "int \<Rightarrow> string" where
  "getDepartureStatus minutesUntil =
     (if minutesUntil \<le> 1 then ''Departing''
      else if minutesUntil \<le> 2 then ''Due''
      else int_toString minutesUntil @ '' min'')"

subsection \<open>getTripDetails\<close>

definition getTripDetails :: "GTFSService \<Rightarrow> string \<Rightarrow> TripDetails option" where
  "getTripDetails svc tid =
     (case Map_get (trips svc) tid of
        None \<Rightarrow> None
      | Some trip \<Rightarrow>
          (let route = Map_get (routes svc) (trip_routeId trip);
               sts = (case Map_get (stopTimes svc) tid of None \<Rightarrow> [] | Some l \<Rightarrow> l)
           in case route of
                None \<Rightarrow> None
              | Some r \<Rightarrow> Some \<lparr> td_trip = trip, td_route = r, td_stopTimes = sts \<rparr>))"

section \<open>Live arrivals\<close>

subsection \<open>The decoded trip-update feed\<close>

text \<open>
  The feed is decoded by the protobuf bindings, which are not part of the repository;
  the model starts from the decoded message. A field that may be \<open>null\<close> or
  \<open>undefined\<close> is an \<open>option\<close>. The stop id of a stop-time update is always a string:
  the bindings decode a stop id that is not on the wire to the empty string. A 64-bit
  field arrives either as a JavaScript number or as a \<open>Long\<close> object: a number is truthy
  when it is not zero, an object always.
\<close>

datatype js_int64 = Num int | Long int

fun truthy_int64 :: "js_int64 \<Rightarrow> bool" where
  "truthy_int64 (Num n) = (n \<noteq> 0)"
| "truthy_int64 (Long n) = True"

fun Number_int64 :: "js_int64 \<Rightarrow> int" where
  "Number_int64 (Num n) = n"
| "Number_int64 (Long n) = n"

record StopTimeEvent =
  ev_delay :: "int option"
  ev_time :: "js_int64 option"
  ev_uncertainty :: "int option"

record StopTimeUpdate =
  stu_stopId :: string
  stu_arrival :: "StopTimeEvent option"
  stu_scheduleRelationship :: "nat option"

record TripDescriptor =
  tdesc_tripId :: "string option"
  tdesc_routeId :: "string option"

record TripUpdate =
  tu_trip :: "TripDescriptor option"
  tu_stopTimeUpdate :: "StopTimeUpdate list option"

record FeedEntity =
  fe_id :: string
  fe_tripUpdate :: "TripUpdate option"

text \<open>
  The enum object \<open>StopTimeUpdate.ScheduleRelationship\<close> of the bindings maps a wire
  value to its name.
\<close>

definition ScheduleRelationship_name :: "nat \<Rightarrow> string option" where
  "ScheduleRelationship_name n =
     (if n = 0 then Some ''SCHEDULED''
      else if n = 1 then Some ''SKIPPED''
      else if n = 2 then Some ''NO_DATA''
      else if n = 3 then Some ''UNSCHEDULED''
      else None)"

text \<open>An optional string is truthy when it is present and not empty.\<close>

fun truthy_str :: "string option \<Rightarrow> bool" where
  "truthy_str None = False"
| "truthy_str (Some s) = (s \<noteq> [])"

subsection \<open>Collecting the matching updates\<close>

record ArrivalData =
  ad_time :: int
  ad_tripId :: string
  ad_delay :: int
  ad_uncertainty :: "int option"
  ad_scheduleRelationship :: "string option"

text \<open>
  \<open>if (!m.has(k)) m.set(k, []); m.get(k)?.push(x)\<close>: the array stored under the key
  grows in place, the key keeps its position.
\<close>

definition Map_push :: "('k, 'v list) jsmap \<Rightarrow> 'k \<Rightarrow> 'v \<Rightarrow> ('k, 'v list) jsmap" where
  "Map_push m k x =
     (let m' = (if \<not> Map_has m k then Map_set m k [] else m)
      in case Map_get m' k of
           None \<Rightarrow> m'
         | Some l \<Rightarrow> Map_set m' k (l @ [x]))"

text \<open>The callback of the inner \<open>forEach\<close> over the stop-time updates of one entity.\<close>

definition processUpdate ::
  "string \<Rightarrow> int \<Rightarrow> string option \<Rightarrow> string option \<Rightarrow>
   (string, ArrivalData list) jsmap \<Rightarrow> StopTimeUpdate \<Rightarrow> (string, ArrivalData list) jsmap" where
  "processUpdate stopId currentTime tripId routeId arrivals update =
     (case (stu_arrival update, tripId, routeId) of
        (Some arrival, Some tid, Some rid) \<Rightarrow>
          (case ev_time arrival of
             Some t \<Rightarrow>
               if stu_stopId update = stopId \<and> truthy_int64 t \<and> tid \<noteq> [] \<and> rid \<noteq> [] then
                 (let arrivalTime = Number_int64 t
                  in if arrivalTime > currentTime \<and> arrivalTime < currentTime + 7200 then
                       Map_push arrivals rid
                         \<lparr> ad_time = arrivalTime,
                           ad_tripId = tid,
                           ad_delay = (case ev_delay arrival of None \<Rightarrow> 0 | Some d \<Rightarrow> d),
                           ad_uncertainty =
                             (case ev_uncertainty arrival of
                                None \<Rightarrow> None
                              | Some u \<Rightarrow> if u = 0 then None else Some u),
                           ad_scheduleRelationship =
                             (case stu_scheduleRelationship update of
                                None \<Rightarrow> None
                              | Some n \<Rightarrow> if n = 0 then None else ScheduleRelationship_name n) \<rparr>
                     else arrivals)
               else arrivals
           | None \<Rightarrow> arrivals)
      | _ \<Rightarrow> arrivals)"

text \<open>
  The callback of the outer \<open>forEach\<close> over the feed entities: an entity whose route
  differs from a given route filter is skipped as a whole.
\<close>

definition processEntity ::
  "string \<Rightarrow> string option \<Rightarrow> int \<Rightarrow>
   (string, ArrivalData list) jsmap \<Rightarrow> FeedEntity \<Rightarrow> (string, ArrivalData list) jsmap" where
  "processEntity stopId routeFilter currentTime arrivals entity =
     (case fe_tripUpdate entity of
        None \<Rightarrow> arrivals
      | Some tu \<Rightarrow>
          (case tu_stopTimeUpdate tu of
             None \<Rightarrow> arrivals
           | Some updates \<Rightarrow>
               (let tripId = (case tu_trip tu of None \<Rightarrow> None | Some t \<Rightarrow> tdesc_tripId t);
                    routeId = (case tu_trip tu of None \<Rightarrow> None | Some t \<Rightarrow> tdesc_routeId t)
                in if truthy_str routeFilter \<and> routeId \<noteq> routeFilter then arrivals
                   else foldl (processUpdate stopId currentTime tripId routeId) arrivals updates)))"

definition collectArrivals ::
  "string \<Rightarrow> string option \<Rightarrow> int \<Rightarrow> FeedEntity list \<Rightarrow> (string, ArrivalData list) jsmap" where
  "collectArrivals stopId routeFilter currentTime feed =
     foldl (processEntity stopId routeFilter currentTime) [] feed"

subsection \<open>Formatting the result\<close>

record ArrivalTime =
  at_time :: int
  at_headsign :: string
  minutesUntilArrival :: int
  delaySeconds :: int
  isRealTime :: bool
  at_uncertainty :: "int option"
  at_status :: string

record BusArrival =
  ba_stopId :: string
  ba_routeId :: string
  ba_routeShortName :: string
  ba_routeLongName :: string
  ba_routeColor :: string
  ba_routeTextColor :: string
  ba_tripHeadsign :: string
  arrivalTimes :: "ArrivalTime list"

text \<open>\<open>xs.slice(0, n)\<close>: a negative end counts from the end of the array.\<close>

definition slice0 :: "int \<Rightarrow> 'a list \<Rightarrow> 'a list" where
  "slice0 n xs = (if n < 0 then take (nat (int (length xs) + n)) xs else take (nat n) xs)"

definition headsignOf :: "GTFSService \<Rightarrow> string \<Rightarrow> string" where
  "headsignOf svc tid = (case Map_get (trips svc) tid of None \<Rightarrow> [] | Some trip \<Rightarrow> tripHeadsign trip)"

definition arrivalTimeWithHeadsign :: "GTFSService \<Rightarrow> int \<Rightarrow> ArrivalData \<Rightarrow> ArrivalTime" where
  "arrivalTimeWithHeadsign svc currentTime arrival =
     (let minutesUntil = (ad_time arrival - currentTime) div 60
      in \<lparr> at_time = ad_time arrival,
           at_headsign = headsignOf svc (ad_tripId arrival),
           minutesUntilArrival = minutesUntil,
           delaySeconds = ad_delay arrival,
           isRealTime = (ad_scheduleRelationship arrival \<noteq> Some ''SCHEDULED''),
           at_uncertainty = ad_uncertainty arrival,
           at_status = getArrivalStatus minutesUntil (ad_delay arrival) \<rparr>)"

text \<open>
  The outcome of the loop over the route groups: the entries pushed to \<open>results\<close> and the
  messages given to \<open>console.warn\<close>. The comparator \<open>a.time - b.time\<close> makes the (stable)
  array sort a sort by key.
\<close>

record ArrivalsOutcome =
  results :: "BusArrival list"
  warnings :: "string list"

definition arrivalGroup ::
  "GTFSService \<Rightarrow> string \<Rightarrow> int \<Rightarrow> int \<Rightarrow> ArrivalsOutcome \<Rightarrow> string \<times> ArrivalData list \<Rightarrow> ArrivalsOutcome" where
  "arrivalGroup svc stopId currentTime maxArrivals out g =
     (case g of (rid, arrivalData) \<Rightarrow>
        (case Map_get (routes svc) rid of
           Some route \<Rightarrow>
             (let sortedArrivals = slice0 maxArrivals (sort_key ad_time arrivalData);
                  withHeadsigns = map (arrivalTimeWithHeadsign svc currentTime) sortedArrivals
              in out \<lparr> results := results out @
                   [\<lparr> ba_stopId = stopId,
                      ba_routeId = rid,
                      ba_routeShortName = shortName route,
                      ba_routeLongName = longName route,
                      ba_routeColor = routeColor route,
                      ba_routeTextColor = routeTextColor route,
                      ba_tripHeadsign = (case withHeadsigns of [] \<Rightarrow> [] | a # _ \<Rightarrow> at_headsign a),
                      arrivalTimes = withHeadsigns \<rparr>] \<rparr>)
         | None \<Rightarrow>
             out \<lparr> warnings := warnings out @ [''  No route details found for route ID: '' @ rid] \<rparr>))"

text \<open>
  The fetch either fails (a response that is not ok, with its status and status text),
  or delivers bytes that the bindings reject, or a decoded feed. The first two make
  \<open>getNextArrivals\<close> throw.
\<close>

datatype fetched = HttpFailure nat string | Undecodable | Decoded "FeedEntity list"

datatype error = FetchError string | FeedDecodeError

definition getNextArrivals ::
  "GTFSService \<Rightarrow> fetched \<Rightarrow> int \<Rightarrow> string \<Rightarrow> string option \<Rightarrow> int \<Rightarrow> error + ArrivalsOutcome" where
  "getNextArrivals svc response currentTime stopId routeFilter maxArrivals =
     (case response of
        HttpFailure status statusText \<Rightarrow>
          Inl (FetchError (''Failed to fetch GTFS feed: '' @ int_toString (int status) @ '' '' @ statusText))
      | Undecodable \<Rightarrow> Inl FeedDecodeError
      | Decoded feed \<Rightarrow>
          Inr (foldl (arrivalGroup svc stopId currentTime maxArrivals)
                 \<lparr> results = [], warnings = [] \<rparr>
                 (collectArrivals stopId routeFilter currentTime feed)))"

section \<open>Scheduled departures\<close>

subsection \<open>Loading the stop times\<close>

text \<open>
  \<open>loadStopTimes\<close> after the CSV rows have been parsed and checked: every accepted row
  is appended to the array of its trip, then every array is sorted by \<open>stopSequence\<close>
  (a stable sort with the comparator \<open>a.stopSequence - b.stopSequence\<close>).
\<close>

definition sortStopTimes ::
  "(string, GTFSStopTime list) jsmap \<Rightarrow> (string, GTFSStopTime list) jsmap" where
  "sortStopTimes m = map (\<lambda>(tid, sts). (tid, sort_key stopSequence sts)) m"

definition loadStopTimes :: "GTFSStopTime list \<Rightarrow> (string, GTFSStopTime list) jsmap" where
  "loadStopTimes rows = sortStopTimes (foldl (\<lambda>m st. Map_push m (st_tripId st) st) [] rows)"

subsection \<open>Numbers read from strings\<close>

text \<open>
  A JavaScript number is \<open>NaN\<close>, an infinity (with its sign) or a finite value; the
  finite doubles are real numbers here, so a literal with more digits than a double
  holds is read exactly and not rounded. A string is a list of code units below 256.
\<close>

datatype jsnum = NaN | Infinity bool | Finite real

text \<open>
  \<open>Number(s)\<close> on a string: blanks and line ends around the literal are dropped; the
  empty string is 0; \<open>0x\<close>, \<open>0o\<close> and \<open>0b\<close> (in either case) start an unsigned integer
  in that radix; otherwise the literal is an optional sign followed by \<open>Infinity\<close> or by
  decimal digits with an optional fraction and an optional exponent. Anything else is
  \<open>NaN\<close>.
\<close>

definition isWhiteSpace :: "char \<Rightarrow> bool" where
  "isWhiteSpace c = ((of_char c :: nat) \<in> {9, 10, 11, 12, 13, 32, 160})"

definition trim :: "string \<Rightarrow> string" where
  "trim s = rev (dropWhile isWhiteSpace (rev (dropWhile isWhiteSpace s)))"

definition isDigit :: "char \<Rightarrow> bool" where
  "isDigit c = (48 \<le> (of_char c :: nat) \<and> (of_char c :: nat) \<le> 57)"

definition digitVal :: "char \<Rightarrow> int" where
  "digitVal c = int (of_char c) - 48"

definition decimalValue :: "string \<Rightarrow> int" where
  "decimalValue s = foldl (\<lambda>a c. 10 * a + digitVal c) 0 s"

definition radixDigit :: "char \<Rightarrow> nat option" where
  "radixDigit c =
     (let n = (of_char c :: nat)
      in if 48 \<le> n \<and> n \<le> 57 then Some (n - 48)
         else if 97 \<le> n \<and> n \<le> 102 then Some (n - 87)
         else if 65 \<le> n \<and> n \<le> 70 then Some (n - 55)
         else None)"

definition radixValue :: "nat \<Rightarrow> string \<Rightarrow> jsnum" where
  "radixValue b s =
     (if s \<noteq> [] \<and> list_all (\<lambda>c. case radixDigit c of None \<Rightarrow> False | Some d \<Rightarrow> d < b) s
      then Finite (of_int (foldl (\<lambda>a c. int b * a + (case radixDigit c of None \<Rightarrow> 0 | Some d \<Rightarrow> int d)) 0 s))
      else NaN)"

definition scale10 :: "int \<Rightarrow> int \<Rightarrow> real" where
  "scale10 m e = (if 0 \<le> e then of_int m * 10 ^ nat e else of_int m / 10 ^ nat (- e))"

definition parseExponent :: "string \<Rightarrow> int option" where
  "parseExponent s =
     (case s of
        [] \<Rightarrow> None
      | c # r \<Rightarrow>
          if c = CHR ''-'' then (if r \<noteq> [] \<and> list_all isDigit r then Some (- decimalValue r) else None)
          else if c = CHR ''+'' then (if r \<noteq> [] \<and> list_all isDigit r then Some (decimalValue r) else None)
          else if list_all isDigit s then Some (decimalValue s)
          else None)"

definition parseUnsignedDecimal :: "string \<Rightarrow> jsnum" where
  "parseUnsignedDecimal s =
     (if s = ''Infinity'' then Infinity True
      else
        (let ip = takeWhile isDigit s;
             r = dropWhile isDigit s;
             fp = (case r of [] \<Rightarrow> [] | c # r' \<Rightarrow> if c = CHR ''.'' then takeWhile isDigit r' else []);
             ex = (case r of [] \<Rightarrow> [] | c # r' \<Rightarrow> if c = CHR ''.'' then dropWhile isDigit r' else r)
         in if ip = [] \<and> fp = [] then NaN
            else
              (case ex of
                 [] \<Rightarrow> Finite (scale10 (decimalValue (ip @ fp)) (- int (length fp)))
               | c # e \<Rightarrow>
                   if c = CHR ''e'' \<or> c = CHR ''E'' then
                     (case parseExponent e of
                        None \<Rightarrow> NaN
                      | Some n \<Rightarrow> Finite (scale10 (decimalValue (ip @ fp)) (n - int (length fp))))
                   else NaN)))"

fun negate :: "jsnum \<Rightarrow> jsnum" where
  "negate NaN = NaN"
| "negate (Infinity p) = Infinity (\<not> p)"
| "negate (Finite x) = Finite (- x)"

definition Number_str :: "string \<Rightarrow> jsnum" where
  "Number_str str =
     (case trim str of
        [] \<Rightarrow> Finite 0
      | c # r \<Rightarrow>
          if c = CHR ''+'' then parseUnsignedDecimal r
          else if c = CHR ''-'' then negate (parseUnsignedDecimal r)
          else
            (case r of
               [] \<Rightarrow> parseUnsignedDecimal [c]
             | p # ds \<Rightarrow>
                 if c = CHR ''0'' \<and> (p = CHR ''x'' \<or> p = CHR ''X'') then radixValue 16 ds
                 else if c = CHR ''0'' \<and> (p = CHR ''o'' \<or> p = CHR ''O'') then radixValue 8 ds
                 else if c = CHR ''0'' \<and> (p = CHR ''b'' \<or> p = CHR ''B'') then radixValue 2 ds
                 else parseUnsignedDecimal (c # r)))"

subsection \<open>Dates in the local time zone\<close>

text \<open>
  Time values are Unix seconds (every date below has zero milliseconds), and an
  invalid date, whose time value is \<open>NaN\<close>, is \<open>None\<close>. The local time zone belongs to
  the machine and is an input: \<open>tzaOfUtc z t\<close> is the offset of local time from UTC, in
  whole seconds, in force at the instant \<open>t\<close>, and \<open>tzaOfLocal z l\<close> is the offset by
  which the local wall-clock value \<open>l\<close> is read (the language's \<open>LocalTZA\<close> with the
  flag true and false). \<open>LocalTime\<close>, \<open>UTC\<close>, \<open>Day\<close>, \<open>TimeWithinDay\<close>, \<open>TimeClip\<close>,
  \<open>ToIntegerOrInfinity\<close> and \<open>MakeTime\<close> are the abstract operations of the language
  definition.
\<close>

record TimeZone =
  tzaOfUtc :: "int \<Rightarrow> int"
  tzaOfLocal :: "int \<Rightarrow> int"

definition LocalTime :: "TimeZone \<Rightarrow> int \<Rightarrow> int" where
  "LocalTime z t = t + tzaOfUtc z t"

definition UTC :: "TimeZone \<Rightarrow> int \<Rightarrow> int" where
  "UTC z l = l - tzaOfLocal z l"

definition Day :: "int \<Rightarrow> int" where
  "Day t = t div 86400"

definition TimeWithinDay :: "int \<Rightarrow> int" where
  "TimeWithinDay t = t mod 86400"

definition TimeClip :: "int \<Rightarrow> int option" where
  "TimeClip t = (if \<bar>t\<bar> \<le> 8640000000000 then Some t else None)"

definition ToIntegerOrInfinity :: "real \<Rightarrow> int" where
  "ToIntegerOrInfinity x = (if 0 \<le> x then \<lfloor>x\<rfloor> else \<lceil>x\<rceil>)"

definition MakeTime :: "jsnum \<Rightarrow> jsnum \<Rightarrow> jsnum \<Rightarrow> int option" where
  "MakeTime hour minute sec =
     (case (hour, minute, sec) of
        (Finite h, Finite m, Finite s) \<Rightarrow>
          Some (ToIntegerOrInfinity h * 3600 + ToIntegerOrInfinity m * 60 + ToIntegerOrInfinity s)
      | _ \<Rightarrow> None)"

text \<open>
  \<open>new Date(now.getFullYear(), now.getMonth(), now.getDate())\<close>: the start of the local
  day of \<open>now\<close> (the year of the clock is past 99, so the constructor takes it as it is).
\<close>

definition Date_localDay :: "TimeZone \<Rightarrow> int \<Rightarrow> int option" where
  "Date_localDay z now = TimeClip (UTC z (Day (LocalTime z now) * 86400))"

text \<open>\<open>d.setDate(d.getDate() + 1)\<close>: the same local time of day on the next local day.\<close>

definition Date_setDateNext :: "TimeZone \<Rightarrow> int option \<Rightarrow> int option" where
  "Date_setDateNext z d =
     (case d of
        None \<Rightarrow> None
      | Some t \<Rightarrow>
          TimeClip (UTC z ((Day (LocalTime z t) + 1) * 86400 + TimeWithinDay (LocalTime z t))))"

text \<open>\<open>d.setHours(h, m, s, 0)\<close>: the given local time of day on the local day of \<open>d\<close>.\<close>

definition Date_setHours :: "TimeZone \<Rightarrow> int option \<Rightarrow> jsnum \<Rightarrow> jsnum \<Rightarrow> jsnum \<Rightarrow> int option" where
  "Date_setHours z d hour minute sec =
     (case d of
        None \<Rightarrow> None
      | Some t \<Rightarrow>
          (case MakeTime hour minute sec of
             None \<Rightarrow> None
           | Some time \<Rightarrow> TimeClip (UTC z (Day (LocalTime z t) * 86400 + time))))"

subsection \<open>parseGtfsTime\<close>

text \<open>
  The array pattern \<open>[hours, minutes, seconds]\<close>: a missing element is \<open>undefined\<close>,
  which is \<open>NaN\<close> in the comparison, the subtraction and \<open>setHours\<close>.
\<close>

definition field :: "jsnum list \<Rightarrow> nat \<Rightarrow> jsnum" where
  "field xs i = (if i < length xs then xs ! i else NaN)"

text \<open>\<open>hours >= 24\<close> and \<open>hours - 24\<close> on a number.\<close>

fun ge24 :: "jsnum \<Rightarrow> bool" where
  "ge24 NaN = False"
| "ge24 (Infinity p) = p"
| "ge24 (Finite x) = (24 \<le> x)"

fun minus24 :: "jsnum \<Rightarrow> jsnum" where
  "minus24 NaN = NaN"
| "minus24 (Infinity p) = Infinity p"
| "minus24 (Finite x) = Finite (x - 24)"

text \<open>
  The result is \<open>Math.floor(today.getTime() / 1000)\<close>, which is the time value in
  seconds, or \<open>NaN\<close> for an invalid date.
\<close>

definition parseGtfsTime :: "TimeZone \<Rightarrow> int \<Rightarrow> string \<Rightarrow> int option" where
  "parseGtfsTime z now timeStr =
     (let parts = map Number_str (split_chr CHR '':'' timeStr);
          hours = field parts 0;
          minutes = field parts 1;
          seconds = field parts 2;
          today = Date_localDay z now
      in if ge24 hours then
           Date_setHours z (Date_setDateNext z today) (minus24 hours) minutes seconds
         else Date_setHours z today hours minutes seconds)"

subsection \<open>Collecting the candidate departures\<close>

record DepartureData =
  dd_time :: int
  dd_tripId :: string

text \<open>
  The body of the loop over \<open>this.stopTimes\<close>. A comparison with \<open>NaN\<close> is false, so
  a time that does not parse is not kept. The clock is read once for the whole call.
\<close>

definition processTrip ::
  "GTFSService \<Rightarrow> TimeZone \<Rightarrow> int \<Rightarrow> string \<Rightarrow> string option \<Rightarrow>
   (string, DepartureData list) jsmap \<Rightarrow> string \<times> GTFSStopTime list \<Rightarrow>
   (string, DepartureData list) jsmap" where
  "processTrip svc z currentTime stopId routeFilter departures entry =
     (case entry of (tid, sts) \<Rightarrow>
        (case Map_get (trips svc) tid of
           None \<Rightarrow> departures
         | Some trip \<Rightarrow>
             if truthy_str routeFilter \<and> Some (trip_routeId trip) \<noteq> routeFilter then departures
             else
               (case find (\<lambda>st. st_stopId st = stopId) sts of
                  None \<Rightarrow> departures
                | Some stopTime \<Rightarrow>
                    (case parseGtfsTime z currentTime (departureTime stopTime) of
                       None \<Rightarrow> departures
                     | Some t \<Rightarrow>
                         if t > currentTime \<and> t < currentTime + 86400 then
                           Map_push departures (trip_routeId trip) \<lparr> dd_time = t, dd_tripId = tid \<rparr>
                         else departures))))"

definition collectDepartures ::
  "GTFSService \<Rightarrow> TimeZone \<Rightarrow> int \<Rightarrow> string \<Rightarrow> string option \<Rightarrow> (string, DepartureData list) jsmap" where
  "collectDepartures svc z currentTime stopId routeFilter =
     foldl (processTrip svc z currentTime stopId routeFilter) [] (stopTimes svc)"

subsection \<open>Deduplicating, sorting and formatting\<close>

record DepartureTime =
  dt_time :: int
  dt_headsign :: string
  minutesUntilDeparture :: int
  isScheduled :: bool
  dt_status :: string

record BusDeparture =
  bd_stopId :: string
  bd_routeId :: string
  bd_routeShortName :: string
  bd_routeLongName :: string
  bd_routeColor :: string
  bd_routeTextColor :: string
  bd_tripHeadsign :: string
  departureTimes :: "DepartureTime list"

text \<open>The \<open>uniqueDepartures\<close> map, keyed by the departure time, and its values.\<close>

definition uniqueDepartures :: "DepartureData list \<Rightarrow> (int, DepartureData) jsmap" where
  "uniqueDepartures departureData =
     foldl (\<lambda>u d. if \<not> Map_has u (dd_time d) then Map_set u (dd_time d) d else u) [] departureData"

definition sortedDepartures :: "int \<Rightarrow> DepartureData list \<Rightarrow> DepartureData list" where
  "sortedDepartures maxDepartures departureData =
     slice0 maxDepartures (sort_key dd_time (Map_values (uniqueDepartures departureData)))"

definition departureTimeWithHeadsign :: "GTFSService \<Rightarrow> int \<Rightarrow> DepartureData \<Rightarrow> DepartureTime" where
  "departureTimeWithHeadsign svc currentTime departure =
     (let minutesUntil = (dd_time departure - currentTime) div 60
      in \<lparr> dt_time = dd_time departure,
           dt_headsign = headsignOf svc (dd_tripId departure),
           minutesUntilDeparture = minutesUntil,
           isScheduled = True,
           dt_status = getDepartureStatus minutesUntil \<rparr>)"

definition departureGroup ::
  "GTFSService \<Rightarrow> string \<Rightarrow> int \<Rightarrow> int \<Rightarrow> BusDeparture list \<Rightarrow> string \<times> DepartureData list \<Rightarrow>
   BusDeparture list" where
  "departureGroup svc stopId currentTime maxDepartures res g =
     (case g of (rid, departureData) \<Rightarrow>
        (case Map_get (routes svc) rid of
           Some route \<Rightarrow>
             (let withHeadsigns =
                    map (departureTimeWithHeadsign svc currentTime)
                      (sortedDepartures maxDepartures departureData)
              in res @
                   [\<lparr> bd_stopId = stopId,
                      bd_routeId = rid,
                      bd_routeShortName = shortName route,
                      bd_routeLongName = longName route,
                      bd_routeColor = routeColor route,
                      bd_routeTextColor = routeTextColor route,
                      bd_tripHeadsign = (case withHeadsigns of [] \<Rightarrow> [] | d # _ \<Rightarrow> dt_headsign d),
                      departureTimes = withHeadsigns \<rparr>])
         | None \<Rightarrow> res))"

definition getScheduledDepartures ::
  "GTFSService \<Rightarrow> TimeZone \<Rightarrow> int \<Rightarrow> string \<Rightarrow> string option \<Rightarrow> int \<Rightarrow> BusDeparture list" where
  "getScheduledDepartures svc z currentTime stopId routeFilter maxDepartures =
     foldl (departureGroup svc stopId currentTime maxDepartures) []
       (collectDepartures svc z currentTime stopId routeFilter)"

section \<open>Nearby stops\<close>

text \<open>
  The doubles of the source are real numbers here, so \<open>Math.sin\<close>, \<open>Math.cos\<close>,
  \<open>Math.sqrt\<close> and \<open>Math.atan2\<close> are the exact functions and nothing is rounded
  except by \<open>Math.round\<close>, which rounds a half upwards.
\<close>

definition toRadians :: "real \<Rightarrow> real" where
  "toRadians degrees = degrees * (pi / 180)"

definition atan2 :: "real \<Rightarrow> real \<Rightarrow> real" where
  "atan2 y x =
     (if x > 0 then arctan (y / x)
      else if x < 0 \<and> y \<ge> 0 then arctan (y / x) + pi
      else if x < 0 then arctan (y / x) - pi
      else if y > 0 then pi / 2
      else if y < 0 then - (pi / 2)
      else 0)"

definition calculateDistance :: "real \<Rightarrow> real \<Rightarrow> real \<Rightarrow> real \<Rightarrow> real" where
  "calculateDistance lat1 lon1 lat2 lon2 =
     (let R = 6371000;
          dLat = toRadians (lat2 - lat1);
          dLon = toRadians (lon2 - lon1);
          a = sin (dLat / 2) * sin (dLat / 2) +
              cos (toRadians lat1) * cos (toRadians lat2) * sin (dLon / 2) * sin (dLon / 2);
          c = 2 * atan2 (sqrt a) (sqrt (1 - a))
      in R * c)"

definition Math_round :: "real \<Rightarrow> int" where
  "Math_round x = \<lfloor>x + 1 / 2\<rfloor>"

record NearbyStop =
  ns_stop :: GTFSStop
  distance :: int

definition scanStops :: "real \<Rightarrow> real \<Rightarrow> real \<Rightarrow> (string, GTFSStop) jsmap \<Rightarrow> NearbyStop list" where
  "scanStops latitude longitude radiusMeters stps =
     foldl (\<lambda>nearbyStops (sid, stop).
              (let d = calculateDistance latitude longitude (stopLat stop) (stopLon stop)
               in if d \<le> radiusMeters
                  then nearbyStops @ [\<lparr> ns_stop = stop, distance = Math_round d \<rparr>]
                  else nearbyStops))
       [] stps"

definition getNearbyStops :: "GTFSService \<Rightarrow> real \<Rightarrow> real \<Rightarrow> real \<Rightarrow> NearbyStop list" where
  "getNearbyStops svc latitude longitude radiusMeters =
     sort_key distance (scanStops latitude longitude radiusMeters (stops svc))"

section \<open>What the specification says is collected\<close>

text \<open>
  The definitions of this section are written from the words of the specification, not
  from the code: they say which updates and which departures are to be collected for a
  route, and the code is compared with them below.
\<close>

text \<open>
  The list stored under a key after the values \<open>xs\<close> have been pushed under it, when
  \<open>g\<close> was stored (or nothing, \<open>None\<close>) before.
\<close>

definition pushed :: "'v list option \<Rightarrow> 'v list \<Rightarrow> 'v list option" where
  "pushed g xs = (if xs = [] then g else Some ((case g of None \<Rightarrow> [] | Some l \<Rightarrow> l) @ xs))"

text \<open>
  A route filter lets a route through when it is not given, when it is the empty string
  (which counts as not given), or when it is the route id.
\<close>

definition spec_passesFilter :: "string option \<Rightarrow> string \<Rightarrow> bool" where
  "spec_passesFilter routeFilter rid =
     (case routeFilter of None \<Rightarrow> True | Some f \<Rightarrow> f = [] \<or> f = rid)"

text \<open>
  A stop-time update matches when it is for the requested stop and its arrival time is
  set; its arrival time; and the entry that is collected for it.
\<close>

definition spec_updateMatches :: "string \<Rightarrow> StopTimeUpdate \<Rightarrow> bool" where
  "spec_updateMatches sid u =
     (stu_stopId u = sid \<and>
      (case stu_arrival u of
         None \<Rightarrow> False
       | Some a \<Rightarrow> (case ev_time a of None \<Rightarrow> False | Some t \<Rightarrow> truthy_int64 t)))"

definition spec_arrivalTime :: "StopTimeUpdate \<Rightarrow> int" where
  "spec_arrivalTime u =
     (case stu_arrival u of
        None \<Rightarrow> 0
      | Some a \<Rightarrow> (case ev_time a of None \<Rightarrow> 0 | Some t \<Rightarrow> Number_int64 t))"

definition spec_arrivalOf :: "string \<Rightarrow> StopTimeUpdate \<Rightarrow> ArrivalData" where
  "spec_arrivalOf tid u =
     \<lparr> ad_time = spec_arrivalTime u,
       ad_tripId = tid,
       ad_delay = (case stu_arrival u of
                     None \<Rightarrow> 0
                   | Some a \<Rightarrow> (case ev_delay a of None \<Rightarrow> 0 | Some d \<Rightarrow> d)),
       ad_uncertainty = (case stu_arrival u of
                           None \<Rightarrow> None
                         | Some a \<Rightarrow>
                             (case ev_uncertainty a of
                                None \<Rightarrow> None
                              | Some x \<Rightarrow> if x = 0 then None else Some x)),
       ad_scheduleRelationship =
         (case stu_scheduleRelationship u of
            None \<Rightarrow> None
          | Some n \<Rightarrow> if n = 0 then None else ScheduleRelationship_name n) \<rparr>"

text \<open>
  The updates of one entity that are collected for the route \<open>rid\<close>: the entity is a trip
  update whose trip has a trip id and the route id \<open>rid\<close>, both set, the route passes the
  filter, and the update matches and arrives after \<open>now\<close> and before \<open>now + 7200\<close>.
\<close>

definition spec_entityArrivals ::
  "string \<Rightarrow> string option \<Rightarrow> int \<Rightarrow> string \<Rightarrow> FeedEntity \<Rightarrow> ArrivalData list" where
  "spec_entityArrivals sid routeFilter now rid e =
     (case fe_tripUpdate e of
        None \<Rightarrow> []
      | Some tu \<Rightarrow>
          (case (tu_stopTimeUpdate tu, tu_trip tu) of
             (Some us, Some tr) \<Rightarrow>
               (case (tdesc_tripId tr, tdesc_routeId tr) of
                  (Some tid, Some r) \<Rightarrow>
                    if tid \<noteq> [] \<and> r \<noteq> [] \<and> r = rid \<and> spec_passesFilter routeFilter rid then
                      map (spec_arrivalOf tid)
                        (filter (\<lambda>u. spec_updateMatches sid u \<and>
                                      now < spec_arrivalTime u \<and> spec_arrivalTime u < now + 7200) us)
                    else []
                | _ \<Rightarrow> [])
           | _ \<Rightarrow> []))"

definition spec_keptArrivals ::
  "string \<Rightarrow> string option \<Rightarrow> int \<Rightarrow> FeedEntity list \<Rightarrow> string \<Rightarrow> ArrivalData list" where
  "spec_keptArrivals sid routeFilter now feed rid =
     concat (map (spec_entityArrivals sid routeFilter now rid) feed)"

text \<open>
  The departure of one trip that is collected for the route \<open>rid\<close>: the trip is in the
  trip index with that route, the route passes the filter, the trip has a stop time at
  the stop, and the departure time of the first such stop time converts to a time after
  \<open>now\<close> and before \<open>now + 86400\<close>.
\<close>

definition spec_tripDeparture ::
  "GTFSService \<Rightarrow> TimeZone \<Rightarrow> int \<Rightarrow> string \<Rightarrow> string option \<Rightarrow> string \<Rightarrow>
   string \<times> GTFSStopTime list \<Rightarrow> DepartureData list" where
  "spec_tripDeparture svc z now sid routeFilter rid entry =
     (case Map_get (trips svc) (fst entry) of
        None \<Rightarrow> []
      | Some trip \<Rightarrow>
          if trip_routeId trip = rid \<and> spec_passesFilter routeFilter rid then
            (case find (\<lambda>st. st_stopId st = sid) (snd entry) of
               None \<Rightarrow> []
             | Some st \<Rightarrow>
                 (case parseGtfsTime z now (departureTime st) of
                    None \<Rightarrow> []
                  | Some t \<Rightarrow>
                      if now < t \<and> t < now + 86400
                      then [\<lparr> dd_time = t, dd_tripId = fst entry \<rparr>] else []))
          else [])"

definition spec_keptDepartures ::
  "GTFSService \<Rightarrow> TimeZone \<Rightarrow> int \<Rightarrow> string \<Rightarrow> string option \<Rightarrow> string \<Rightarrow> DepartureData list" where
  "spec_keptDepartures svc z now sid routeFilter rid =
     concat (map (spec_tripDeparture svc z now sid routeFilter rid) (stopTimes svc))"

text \<open>
  How many entries \<open>slice(0, n)\<close> leaves of \<open>len\<close>, and the timestamps of a group
  without repetition.
\<close>

definition spec_sliceCount :: "int \<Rightarrow> nat \<Rightarrow> nat" where
  "spec_sliceCount n len = (if n < 0 then nat (int len + n) else min (nat n) len)"

definition spec_timestamps :: "DepartureData list \<Rightarrow> int list" where
  "spec_timestamps ds = remdups (map dd_time ds)"

subsection \<open>The timestamp of a time of day\<close>

text \<open>
  What the specification says of the conversion, written out in seconds with the two
  offset functions of the zone only. \<open>spec_localDayStart z t\<close> is the local time of the
  midnight that begins the local calendar day of the instant \<open>t\<close>, \<open>spec_instant z l\<close>
  the instant of the local time \<open>l\<close> when it is in the range of a \<open>Date\<close>.
  \<open>spec_gtfsTime z now H M S\<close> anchors the time of day at the midnight of today;
  from 24 hours on it first moves to the same time of day of the next calendar day and
  takes 24 from the hours.
\<close>

definition spec_localDayStart :: "TimeZone \<Rightarrow> int \<Rightarrow> int" where
  "spec_localDayStart z t = (t + tzaOfUtc z t) div 86400 * 86400"

definition spec_instant :: "TimeZone \<Rightarrow> int \<Rightarrow> int option" where
  "spec_instant z l =
     (let t = l - tzaOfLocal z l in if \<bar>t\<bar> \<le> 8640000000000 then Some t else None)"

definition spec_gtfsTime :: "TimeZone \<Rightarrow> int \<Rightarrow> int \<Rightarrow> int \<Rightarrow> int \<Rightarrow> int option" where
  "spec_gtfsTime z now H M S =
     (case spec_instant z (spec_localDayStart z now) of
        None \<Rightarrow> None
      | Some today \<Rightarrow>
          if 24 \<le> H then
            (case spec_instant z
                    (spec_localDayStart z today + 86400 + (today + tzaOfUtc z today) mod 86400) of
               None \<Rightarrow> None
             | Some tomorrow \<Rightarrow>
                 spec_instant z (spec_localDayStart z tomorrow + ((H - 24) * 3600 + M * 60 + S)))
          else spec_instant z (spec_localDayStart z today + (H * 3600 + M * 60 + S)))"

subsection \<open>Two time zones\<close>

text \<open>
  Two zones: one with a fixed offset from UTC, and the Pacific zone of the transit agency
  around 2023-11-05, when daylight saving time ended at 09:00 UTC (02:00 local time became
  01:00). A local time of the repeated hour is read with the offset before the change.
\<close>

definition fixedOffset :: "int \<Rightarrow> TimeZone" where
  "fixedOffset off = \<lparr> tzaOfUtc = (\<lambda>t. off), tzaOfLocal = (\<lambda>l. off) \<rparr>"

definition pacific2023 :: TimeZone where
  "pacific2023 =
     \<lparr> tzaOfUtc = (\<lambda>t. if t < 1699174800 then - 25200 else - 28800),
       tzaOfLocal = (\<lambda>l. if l < 1699149600 then - 25200 else - 28800) \<rparr>"

subsection \<open>The haversine formula\<close>

text \<open>
  The great-circle distance in metres between two points given in degrees, on a sphere of
  radius 6371000 m: \<open>2 R arcsin (sqrt h)\<close> with
  \<open>h = sin\<^sup>2 (\<Delta>\<phi> / 2) + cos \<phi>\<^sub>1 cos \<phi>\<^sub>2 sin\<^sup>2 (\<Delta>\<lambda> / 2)\<close>, the angles in radians.
\<close>

definition spec_haversine :: "real \<Rightarrow> real \<Rightarrow> real \<Rightarrow> real \<Rightarrow> real" where
  "spec_haversine lat1 lon1 lat2 lon2 =
     2 * 6371000 *
       arcsin (sqrt ((sin ((lat2 - lat1) * pi / 180 / 2))\<^sup>2 +
                     cos (lat1 * pi / 180) * cos (lat2 * pi / 180) *
                       (sin ((lon2 - lon1) * pi / 180 / 2))\<^sup>2))"

section \<open>Properties\<close>

subsection \<open>Maps and strings\<close>

lemma update_fresh: "map_of m k = None \<Longrightarrow> AList.update k v m = m @ [(k, v)]"
  by (induction m) (auto split: if_splits)

lemma Map_get_append_fresh:
  "Map_get m k = None \<Longrightarrow> Map_get (m @ [(k, v)]) k' = (if k' = k then Some v else Map_get m k')"
  by (auto simp: Map_get_def map_add_def split: option.splits)

lemma Map_get_Map_set: "Map_get (Map_set m k v) k' = (if k' = k then Some v else Map_get m k')"
  by (simp add: Map_get_def Map_set_def update_conv')

lemma Map_get_Map_push:
  "Map_get (Map_push m k x) k' =
     (if k' = k then Some ((case Map_get m k of None \<Rightarrow> [] | Some l \<Rightarrow> l) @ [x]) else Map_get m k')"
  by (cases "map_of m k") (simp_all add: Map_push_def Map_has_def Map_get_def Map_set_def update_conv' Let_def)

lemma split_chr_nonempty: "split_chr sep s \<noteq> []"
  by (induction s) (auto split: list.splits)

lemma hd_split_chr: "split_chr sep s = w # ws \<Longrightarrow> w = takeWhile (\<lambda>c. c \<noteq> sep) s"
  by (induction s arbitrary: w ws) (auto simp: split_chr_nonempty split: if_splits list.splits)

lemma first_piece:
  "(case split_chr sep s of [] \<Rightarrow> [] | w # _ \<Rightarrow> w) = takeWhile (\<lambda>c. c \<noteq> sep) s"
  using hd_split_chr [of sep s] split_chr_nonempty [of sep s]
  by (cases "split_chr sep s") auto

subsection \<open>The arrival status\<close>

text \<open>
  C2. The status rules are tried in a fixed order: at most one minute is "Arriving";
  otherwise at most two minutes is "Due", whatever the delay; otherwise a delay above 300
  seconds is "Delayed"; otherwise a delay below -60 seconds is "Early"; otherwise the
  status is the number of minutes followed by " min".
\<close>

theorem getArrivalStatus_order:
  "(mins \<le> 1 \<longrightarrow> getArrivalStatus mins delay = ''Arriving'') \<and>
   (1 < mins \<and> mins \<le> 2 \<longrightarrow> getArrivalStatus mins delay = ''Due'') \<and>
   (2 < mins \<and> delay > 300 \<longrightarrow> getArrivalStatus mins delay = ''Delayed'') \<and>
   (2 < mins \<and> \<not> delay > 300 \<and> delay < - 60 \<longrightarrow>
      getArrivalStatus mins delay = ''Early'') \<and>
   (2 < mins \<and> \<not> delay > 300 \<and> \<not> delay < - 60 \<longrightarrow>
      getArrivalStatus mins delay = int_toString mins @ '' min'')"
  by (simp add: getArrivalStatus_def)

theorem getArrivalStatus_order_witness:
  "getArrivalStatus 1 0 = ''Arriving'' \<and> getArrivalStatus 2 0 = ''Due'' \<and>
   getArrivalStatus 2 400 = ''Due'' \<and> getArrivalStatus 10 310 = ''Delayed'' \<and>
   getArrivalStatus 10 (- 90) = ''Early'' \<and> getArrivalStatus 10 0 = ''10 min''"
  using getArrivalStatus_order [of 1 0] getArrivalStatus_order [of 2 0]
    getArrivalStatus_order [of 2 400] getArrivalStatus_order [of 10 310]
    getArrivalStatus_order [of 10 "- 90"] getArrivalStatus_order [of 10 0]
  by (simp add: int_toString_def nat_digits.simps digit_chr_def)

subsection \<open>Route groups without a route\<close>

lemma arrivalGroup_results:
  "map ba_routeId (results (foldl (arrivalGroup svc sid now mx) out gs)) =
     map ba_routeId (results out) @ filter (\<lambda>rid. Map_get (routes svc) rid \<noteq> None) (map fst gs)"
  by (induction gs arbitrary: out) (auto simp: arrivalGroup_def Let_def split: option.splits)

lemma arrivalGroup_warnings:
  "warnings (foldl (arrivalGroup svc sid now mx) out gs) =
     warnings out @ map (\<lambda>rid. ''  No route details found for route ID: '' @ rid)
        (filter (\<lambda>rid. Map_get (routes svc) rid = None) (map fst gs))"
  by (induction gs arbitrary: out) (auto simp: arrivalGroup_def Let_def split: option.splits)

text \<open>
  C7. Once the feed is fetched and decoded, \<open>getNextArrivals\<close> returns normally. Its
  results are the route groups whose route id is in the route index, in the order of the
  groups; each group whose route id is not in the index gives one warning and no result.
  So every result carries a route id of the index, and no result carries an unknown one.
\<close>

theorem getNextArrivals_unknown_route:
  "\<exists>out. getNextArrivals svc (Decoded feed) now stopId routeFilter maxArrivals = Inr out \<and>
     map ba_routeId (results out) =
       filter (\<lambda>rid. Map_get (routes svc) rid \<noteq> None) (map fst (collectArrivals stopId routeFilter now feed)) \<and>
     warnings out =
       map (\<lambda>rid. ''  No route details found for route ID: '' @ rid)
         (filter (\<lambda>rid. Map_get (routes svc) rid = None) (map fst (collectArrivals stopId routeFilter now feed))) \<and>
     (\<forall>b \<in> set (results out). Map_get (routes svc) (ba_routeId b) \<noteq> None) \<and>
     (\<forall>rid. Map_get (routes svc) rid = None \<longrightarrow> rid \<notin> ba_routeId ` set (results out))"
proof -
  let ?out = "foldl (arrivalGroup svc stopId now maxArrivals) \<lparr> results = [], warnings = [] \<rparr>
                 (collectArrivals stopId routeFilter now feed)"
  have r: "map ba_routeId (results ?out) =
       filter (\<lambda>rid. Map_get (routes svc) rid \<noteq> None) (map fst (collectArrivals stopId routeFilter now feed))"
    by (simp add: arrivalGroup_results)
  have w: "warnings ?out = map (\<lambda>rid. ''  No route details found for route ID: '' @ rid)
         (filter (\<lambda>rid. Map_get (routes svc) rid = None) (map fst (collectArrivals stopId routeFilter now feed)))"
    by (simp add: arrivalGroup_warnings)
  have s: "ba_routeId ` set (results ?out) \<subseteq> {rid. Map_get (routes svc) rid \<noteq> None}"
  proof -
    have "set (map ba_routeId (results ?out)) \<subseteq> {rid. Map_get (routes svc) rid \<noteq> None}"
      unfolding r by auto
    then show ?thesis by simp
  qed
  have "getNextArrivals svc (Decoded feed) now stopId routeFilter maxArrivals = Inr ?out"
    by (simp add: getNextArrivals_def)
  with r w s show ?thesis by blast
qed

theorem getNextArrivals_unknown_route_witness:
  "getNextArrivals
      \<lparr> routes = [(''1'', \<lparr> route_routeId = ''1'', shortName = ''1'', longName = ''University/Downtown'',
                            routeColor = ''000000'', routeTextColor = ''FFFFFF'' \<rparr>)],
        trips = [], stops = [], stopTimes = [] \<rparr>
      (Decoded
        [\<lparr> fe_id = ''e1'', fe_tripUpdate = Some \<lparr> tu_trip = Some \<lparr> tdesc_tripId = Some ''T9'', tdesc_routeId = Some ''99'' \<rparr>,
            tu_stopTimeUpdate = Some [\<lparr> stu_stopId = ''12345'',
               stu_arrival = Some \<lparr> ev_delay = None, ev_time = Some (Long 1300), ev_uncertainty = None \<rparr>,
               stu_scheduleRelationship = None \<rparr>] \<rparr> \<rparr>,
         \<lparr> fe_id = ''e2'', fe_tripUpdate = Some \<lparr> tu_trip = Some \<lparr> tdesc_tripId = Some ''T1'', tdesc_routeId = Some ''1'' \<rparr>,
            tu_stopTimeUpdate = Some [\<lparr> stu_stopId = ''12345'',
               stu_arrival = Some \<lparr> ev_delay = Some 0, ev_time = Some (Long 1180), ev_uncertainty = None \<rparr>,
               stu_scheduleRelationship = None \<rparr>] \<rparr> \<rparr>])
      1000 ''12345'' None 5
   = Inr \<lparr> results =
             [\<lparr> ba_stopId = ''12345'', ba_routeId = ''1'', ba_routeShortName = ''1'',
                ba_routeLongName = ''University/Downtown'', ba_routeColor = ''000000'',
                ba_routeTextColor = ''FFFFFF'', ba_tripHeadsign = '''',
                arrivalTimes = [\<lparr> at_time = 1180, at_headsign = '''', minutesUntilArrival = 3,
                   delaySeconds = 0, isRealTime = True, at_uncertainty = None, at_status = ''3 min'' \<rparr>] \<rparr>],
           warnings = [''  No route details found for route ID: 99''] \<rparr>"
  using getNextArrivals_unknown_route [of
      "\<lparr> routes = [(''1'', \<lparr> route_routeId = ''1'', shortName = ''1'', longName = ''University/Downtown'',
                            routeColor = ''000000'', routeTextColor = ''FFFFFF'' \<rparr>)],
        trips = [], stops = [], stopTimes = [] \<rparr>"
      "[\<lparr> fe_id = ''e1'', fe_tripUpdate = Some \<lparr> tu_trip = Some \<lparr> tdesc_tripId = Some ''T9'', tdesc_routeId = Some ''99'' \<rparr>,
            tu_stopTimeUpdate = Some [\<lparr> stu_stopId = ''12345'',
               stu_arrival = Some \<lparr> ev_delay = None, ev_time = Some (Long 1300), ev_uncertainty = None \<rparr>,
               stu_scheduleRelationship = None \<rparr>] \<rparr> \<rparr>,
         \<lparr> fe_id = ''e2'', fe_tripUpdate = Some \<lparr> tu_trip = Some \<lparr> tdesc_tripId = Some ''T1'', tdesc_routeId = Some ''1'' \<rparr>,
            tu_stopTimeUpdate = Some [\<lparr> stu_stopId = ''12345'',
               stu_arrival = Some \<lparr> ev_delay = Some 0, ev_time = Some (Long 1180), ev_uncertainty = None \<rparr>,
               stu_scheduleRelationship = None \<rparr>] \<rparr> \<rparr>]"
      1000 "''12345''" None 5]
  by (simp add: getNextArrivals_def collectArrivals_def processEntity_def processUpdate_def
      Map_push_def Map_has_def Map_get_def Map_set_def Let_def arrivalGroup_def slice0_def
      arrivalTimeWithHeadsign_def headsignOf_def getArrivalStatus_def int_toString_def
      nat_digits.simps digit_chr_def)

subsection \<open>getOrCreateRoute\<close>

lemma getOrCreateRoute_Some:
  "Map_get rts rid = Some route \<Longrightarrow> getOrCreateRoute rts rid = (route, rts)"
  by (simp add: getOrCreateRoute_def)

lemma getOrCreateRoute_None:
  "Map_get rts rid = None \<Longrightarrow>
     getOrCreateRoute rts rid =
       (let seg = takeWhile (\<lambda>c. c \<noteq> CHR ''-'') rid;
            r = \<lparr> route_routeId = rid, shortName = (if seg = [] then rid else seg), longName = rid,
                  routeColor = ''000000'', routeTextColor = ''FFFFFF'' \<rparr>
        in (r, rts @ [(rid, r)]))"
  by (simp add: getOrCreateRoute_def Let_def first_piece str_or_def
      Map_set_def Map_get_def update_fresh)

text \<open>
  C8. \<open>getOrCreateRoute\<close> is total. A route id of the index gives the stored route and
  leaves the index as it is. Any other route id gives a new route whose short name is
  the part of the id before the first "-" (the whole id when that part is empty), whose
  long name is the id and whose colours are "000000" and "FFFFFF"; the route is stored at
  the end of the index under the id, the other entries are untouched, and a second call
  with the id returns that route and changes nothing.
\<close>

theorem getOrCreateRoute_spec:
  "(\<forall>route. Map_get rts rid = Some route \<longrightarrow> getOrCreateRoute rts rid = (route, rts)) \<and>
   (Map_get rts rid = None \<longrightarrow>
      (let seg = takeWhile (\<lambda>c. c \<noteq> CHR ''-'') rid;
           r = \<lparr> route_routeId = rid, shortName = (if seg = [] then rid else seg), longName = rid,
                 routeColor = ''000000'', routeTextColor = ''FFFFFF'' \<rparr>;
           rts' = snd (getOrCreateRoute rts rid)
       in fst (getOrCreateRoute rts rid) = r \<and>
          rts' = rts @ [(rid, r)] \<and>
          Map_get rts' rid = Some r \<and>
          (\<forall>k. k \<noteq> rid \<longrightarrow> Map_get rts' k = Map_get rts k) \<and>
          getOrCreateRoute rts' rid = (r, rts')))"
proof (intro conjI allI impI)
  fix route assume "Map_get rts rid = Some route"
  then show "getOrCreateRoute rts rid = (route, rts)" by (rule getOrCreateRoute_Some)
next
  assume none: "Map_get rts rid = None"
  define r where "r = \<lparr> route_routeId = rid,
      shortName = (if takeWhile (\<lambda>c. c \<noteq> CHR ''-'') rid = [] then rid
                   else takeWhile (\<lambda>c. c \<noteq> CHR ''-'') rid),
      longName = rid, routeColor = ''000000'', routeTextColor = ''FFFFFF'' \<rparr>"
  have first: "getOrCreateRoute rts rid = (r, rts @ [(rid, r)])"
    using getOrCreateRoute_None [OF none] by (simp add: Let_def r_def)
  have stored: "Map_get (rts @ [(rid, r)]) rid = Some r"
    using none by (simp add: Map_get_append_fresh)
  have others: "\<forall>k. k \<noteq> rid \<longrightarrow> Map_get (rts @ [(rid, r)]) k = Map_get rts k"
    using none by (simp add: Map_get_append_fresh)
  have again: "getOrCreateRoute (rts @ [(rid, r)]) rid = (r, rts @ [(rid, r)])"
    using stored by (rule getOrCreateRoute_Some)
  show "let seg = takeWhile (\<lambda>c. c \<noteq> CHR ''-'') rid;
           r = \<lparr> route_routeId = rid, shortName = (if seg = [] then rid else seg), longName = rid,
                 routeColor = ''000000'', routeTextColor = ''FFFFFF'' \<rparr>;
           rts' = snd (getOrCreateRoute rts rid)
       in fst (getOrCreateRoute rts rid) = r \<and>
          rts' = rts @ [(rid, r)] \<and>
          Map_get rts' rid = Some r \<and>
          (\<forall>k. k \<noteq> rid \<longrightarrow> Map_get rts' k = Map_get rts k) \<and>
          getOrCreateRoute rts' rid = (r, rts')"
    using first stored others again unfolding Let_def r_def by simp
qed

theorem getOrCreateRoute_spec_witness:
  "Map_get [] ''95-VIC'' = (None :: GTFSRoute option) \<and>
   fst (getOrCreateRoute [] ''95-VIC'') =
     \<lparr> route_routeId = ''95-VIC'', shortName = ''95'', longName = ''95-VIC'',
       routeColor = ''000000'', routeTextColor = ''FFFFFF'' \<rparr> \<and>
   snd (getOrCreateRoute [] ''95-VIC'') =
     [(''95-VIC'', \<lparr> route_routeId = ''95-VIC'', shortName = ''95'', longName = ''95-VIC'',
        routeColor = ''000000'', routeTextColor = ''FFFFFF'' \<rparr>)] \<and>
   getOrCreateRoute (snd (getOrCreateRoute [] ''95-VIC'')) ''95-VIC'' =
     (\<lparr> route_routeId = ''95-VIC'', shortName = ''95'', longName = ''95-VIC'',
        routeColor = ''000000'', routeTextColor = ''FFFFFF'' \<rparr>,
      snd (getOrCreateRoute [] ''95-VIC''))"
proof -
  have h: "Map_get [] ''95-VIC'' = (None :: GTFSRoute option)"
    by (simp add: Map_get_def)
  have seg: "takeWhile (\<lambda>c. c \<noteq> CHR ''-'') ''95-VIC'' = ''95''"
    by simp
  show ?thesis
    using h getOrCreateRoute_spec [of "[]" "''95-VIC''"]
    unfolding Let_def seg by (elim conjE impE) simp_all
qed

subsection \<open>getTripDetails\<close>

text \<open>
  C9. A trip of the trip index whose route id has no entry in the route index has no
  trip details: the result is absent, whatever stop times are loaded for the trip. The
  result is absent exactly when the trip or its route is missing.
\<close>

theorem getTripDetails_dangling_route:
  "(\<forall>trip. Map_get (trips svc) tid = Some trip \<and> Map_get (routes svc) (trip_routeId trip) = None
       \<longrightarrow> getTripDetails svc tid = None) \<and>
   (getTripDetails svc tid = None \<longleftrightarrow>
      (Map_get (trips svc) tid = None \<or>
       (\<exists>trip. Map_get (trips svc) tid = Some trip \<and> Map_get (routes svc) (trip_routeId trip) = None)))"
  by (auto simp: getTripDetails_def Let_def split: option.splits)

theorem getTripDetails_dangling_route_witness:
  "Map_get (trips \<lparr> routes = [],
       trips = [(''T1'', \<lparr> trip_tripId = ''T1'', trip_routeId = ''9'', tripHeadsign = ''Downtown'' \<rparr>)],
       stops = [],
       stopTimes = [(''T1'', [\<lparr> st_tripId = ''T1'', arrivalTime = ''08:00:00'',
                       departureTime = ''08:00:00'', st_stopId = ''S1'', stopSequence = 1 \<rparr>])] \<rparr>) ''T1''
     = Some \<lparr> trip_tripId = ''T1'', trip_routeId = ''9'', tripHeadsign = ''Downtown'' \<rparr> \<and>
   getTripDetails \<lparr> routes = [],
       trips = [(''T1'', \<lparr> trip_tripId = ''T1'', trip_routeId = ''9'', tripHeadsign = ''Downtown'' \<rparr>)],
       stops = [],
       stopTimes = [(''T1'', [\<lparr> st_tripId = ''T1'', arrivalTime = ''08:00:00'',
                       departureTime = ''08:00:00'', st_stopId = ''S1'', stopSequence = 1 \<rparr>])] \<rparr> ''T1''
     = None"
  using getTripDetails_dangling_route [of "\<lparr> routes = [],
       trips = [(''T1'', \<lparr> trip_tripId = ''T1'', trip_routeId = ''9'', tripHeadsign = ''Downtown'' \<rparr>)],
       stops = [],
       stopTimes = [(''T1'', [\<lparr> st_tripId = ''T1'', arrivalTime = ''08:00:00'',
                       departureTime = ''08:00:00'', st_stopId = ''S1'', stopSequence = 1 \<rparr>])] \<rparr>" "''T1''"]
  by (simp add: Map_get_def)

subsection \<open>The arrival window\<close>

lemma Map_get_Map_push_pushed:
  "Map_get (Map_push m k x) k' = (if k' = k then pushed (Map_get m k) [x] else Map_get m k')"
  by (simp add: Map_get_Map_push pushed_def)

lemma pushed_Nil: "pushed g [] = g"
  by (simp add: pushed_def)

lemma pushed_append: "pushed (pushed g xs) ys = pushed g (xs @ ys)"
  by (cases g) (simp_all add: pushed_def)

lemma pushed_None: "pushed None xs = (if xs = [] then None else Some xs)"
  by (simp add: pushed_def)

lemma processUpdate_set:
  assumes "tid \<noteq> []" "r \<noteq> []"
  shows "processUpdate sid now (Some tid) (Some r) m u =
     (if spec_updateMatches sid u \<and> now < spec_arrivalTime u \<and> spec_arrivalTime u < now + 7200
      then Map_push m r (spec_arrivalOf tid u) else m)"
  using assms
  by (auto simp: processUpdate_def spec_updateMatches_def spec_arrivalTime_def spec_arrivalOf_def
      Let_def split: option.splits)

lemma processUpdate_unset:
  assumes "\<not> (truthy_str tripId \<and> truthy_str routeId)"
  shows "processUpdate sid now tripId routeId m u = m"
proof (cases tripId)
  case None
  then show ?thesis by (simp add: processUpdate_def split: option.splits)
next
  case (Some tid)
  note t = this
  show ?thesis
  proof (cases routeId)
    case None
    then show ?thesis by (simp add: processUpdate_def split: option.splits)
  next
    case (Some r)
    with t assms show ?thesis
      by (auto simp: processUpdate_def split: option.splits)
  qed
qed

lemma foldl_processUpdate_set:
  assumes "tid \<noteq> []" "r \<noteq> []"
  shows "Map_get (foldl (processUpdate sid now (Some tid) (Some r)) m us) rid =
     pushed (Map_get m rid)
       (if r = rid then
          map (spec_arrivalOf tid)
            (filter (\<lambda>u. spec_updateMatches sid u \<and>
                          now < spec_arrivalTime u \<and> spec_arrivalTime u < now + 7200) us)
        else [])"
proof (induction us arbitrary: m)
  case Nil
  show ?case by (simp add: pushed_Nil)
next
  case (Cons u us)
  let ?keep = "\<lambda>u. spec_updateMatches sid u \<and> now < spec_arrivalTime u \<and> spec_arrivalTime u < now + 7200"
  let ?rest = "if r = rid then map (spec_arrivalOf tid) (filter ?keep us) else []"
  let ?m' = "processUpdate sid now (Some tid) (Some r) m u"
  have ih: "Map_get (foldl (processUpdate sid now (Some tid) (Some r)) ?m' us) rid
      = pushed (Map_get ?m' rid) ?rest"
    by (rule Cons.IH)
  have m': "Map_get ?m' rid = pushed (Map_get m rid) (if r = rid \<and> ?keep u then [spec_arrivalOf tid u] else [])"
    using assms by (simp add: processUpdate_set Map_get_Map_push_pushed pushed_Nil)
  have "pushed (Map_get ?m' rid) ?rest
      = pushed (Map_get m rid) ((if r = rid \<and> ?keep u then [spec_arrivalOf tid u] else []) @ ?rest)"
    unfolding m' by (rule pushed_append)
  also have "(if r = rid \<and> ?keep u then [spec_arrivalOf tid u] else []) @ ?rest
      = (if r = rid then map (spec_arrivalOf tid) (filter ?keep (u # us)) else [])"
    by simp
  finally show ?case using ih by simp
qed

lemma foldl_processUpdate_unset:
  assumes "\<not> (truthy_str tripId \<and> truthy_str routeId)"
  shows "foldl (processUpdate sid now tripId routeId) m us = m"
  by (induction us) (simp_all add: processUpdate_unset [OF assms])

lemma truthy_filter_iff:
  "\<not> (truthy_str rf \<and> Some r \<noteq> rf) \<longleftrightarrow> spec_passesFilter rf r"
  by (cases rf) (auto simp: spec_passesFilter_def)

lemma processEntity_get:
  "Map_get (processEntity sid rf now m e) rid =
     pushed (Map_get m rid) (spec_entityArrivals sid rf now rid e)"
proof (cases "fe_tripUpdate e")
  case None
  then show ?thesis by (simp add: processEntity_def spec_entityArrivals_def pushed_Nil)
next
  case (Some tu)
  note tu = this
  show ?thesis
  proof (cases "tu_stopTimeUpdate tu")
    case None
    with tu show ?thesis by (simp add: processEntity_def spec_entityArrivals_def pushed_Nil)
  next
    case (Some us)
    note us = this
    define tripId where "tripId = (case tu_trip tu of None \<Rightarrow> None | Some t \<Rightarrow> tdesc_tripId t)"
    define routeId where "routeId = (case tu_trip tu of None \<Rightarrow> None | Some t \<Rightarrow> tdesc_routeId t)"
    have pe: "processEntity sid rf now m e =
        (if truthy_str rf \<and> routeId \<noteq> rf then m
         else foldl (processUpdate sid now tripId routeId) m us)"
      using tu us by (simp add: processEntity_def tripId_def routeId_def Let_def)
    show ?thesis
    proof (cases "truthy_str tripId \<and> truthy_str routeId")
      case False
      then have "processEntity sid rf now m e = m"
        unfolding pe by (simp add: foldl_processUpdate_unset)
      moreover have "spec_entityArrivals sid rf now rid e = []"
        using False tu us
        by (auto simp: spec_entityArrivals_def tripId_def routeId_def split: option.splits)
      ultimately show ?thesis by (simp add: pushed_Nil)
    next
      case True
      then obtain tid r where ids: "tripId = Some tid" "routeId = Some r" "tid \<noteq> []" "r \<noteq> []"
        by (cases tripId; cases routeId) auto
      then obtain tr where tr: "tu_trip tu = Some tr" "tdesc_tripId tr = Some tid" "tdesc_routeId tr = Some r"
        by (cases "tu_trip tu") (auto simp: tripId_def routeId_def)
      have sp: "spec_entityArrivals sid rf now rid e =
          (if r = rid \<and> spec_passesFilter rf rid then
             map (spec_arrivalOf tid)
               (filter (\<lambda>u. spec_updateMatches sid u \<and>
                             now < spec_arrivalTime u \<and> spec_arrivalTime u < now + 7200) us)
           else [])"
        using tu us tr ids by (simp add: spec_entityArrivals_def)
      show ?thesis
      proof (cases "spec_passesFilter rf r")
        case True
        then have "\<not> (truthy_str rf \<and> Some r \<noteq> rf)"
          by (simp only: truthy_filter_iff)
        then have "(if truthy_str rf \<and> Some r \<noteq> rf then m
              else foldl (processUpdate sid now (Some tid) (Some r)) m us)
            = foldl (processUpdate sid now (Some tid) (Some r)) m us"
          by (rule if_not_P)
        then have "processEntity sid rf now m e = foldl (processUpdate sid now (Some tid) (Some r)) m us"
          by (simp only: pe ids)
        then show ?thesis
          using True ids by (auto simp: sp foldl_processUpdate_set)
      next
        case False
        then have "truthy_str rf \<and> Some r \<noteq> rf"
          using truthy_filter_iff [of rf r] by blast
        then have "(if truthy_str rf \<and> Some r \<noteq> rf then m
              else foldl (processUpdate sid now (Some tid) (Some r)) m us) = m"
          by (rule if_P)
        then have "processEntity sid rf now m e = m"
          by (simp only: pe ids)
        then show ?thesis using False by (auto simp: sp pushed_Nil)
      qed
    qed
  qed
qed

lemma foldl_processEntity_get:
  "Map_get (foldl (processEntity sid rf now) m feed) rid =
     pushed (Map_get m rid) (concat (map (spec_entityArrivals sid rf now rid) feed))"
  by (induction feed arbitrary: m) (simp_all add: pushed_Nil processEntity_get pushed_append)

lemma collectArrivals_get:
  "Map_get (collectArrivals sid rf now feed) rid =
     (if spec_keptArrivals sid rf now feed rid = [] then None
      else Some (spec_keptArrivals sid rf now feed rid))"
  unfolding collectArrivals_def spec_keptArrivals_def foldl_processEntity_get
  by (simp add: Map_get_def pushed_None)

lemma update_append_fresh:
  "map_of m k = None \<Longrightarrow> AList.update k v (m @ [(k, w)]) = m @ [(k, v)]"
  by (induction m) (auto split: if_splits)

lemma Map_push_alt:
  "Map_push m k x =
     (case map_of m k of None \<Rightarrow> m @ [(k, [x])] | Some l \<Rightarrow> AList.update k (l @ [x]) m)"
  by (cases "map_of m k")
    (simp_all add: Map_push_def Map_has_def Map_get_def Map_set_def Let_def update_fresh
      update_append_fresh map_add_def)

lemma Map_push_keys:
  "map fst (Map_push m k x) = (if k \<in> set (map fst m) then map fst m else map fst m @ [k])"
proof (cases "map_of m k")
  case None
  then have "k \<notin> set (map fst m)" by (simp add: map_of_eq_None_iff)
  with None show ?thesis by (simp add: Map_push_alt)
next
  case (Some l)
  then have "k \<in> set (map fst m)" by (metis map_of_eq_None_iff option.distinct(1) set_map)
  with Some show ?thesis by (simp add: Map_push_alt update_keys)
qed

lemma Map_push_distinct: "distinct (map fst m) \<Longrightarrow> distinct (map fst (Map_push m k x))"
  by (simp add: Map_push_keys)

lemma Map_get_distinct: "distinct (map fst m) \<Longrightarrow> (k, v) \<in> set m \<Longrightarrow> Map_get m k = Some v"
  by (simp add: Map_get_def)

lemma Map_get_in: "Map_get m k = Some v \<Longrightarrow> (k, v) \<in> set m"
  by (simp add: Map_get_def map_of_SomeD)

lemma Map_get_keys: "k \<in> set (map fst m) \<longleftrightarrow> Map_get m k \<noteq> None"
  by (simp add: Map_get_def map_of_eq_None_iff)

lemma processUpdate_cases:
  "processUpdate sid now ti ri m u = m \<or> (\<exists>r x. processUpdate sid now ti ri m u = Map_push m r x)"
  unfolding processUpdate_def Let_def by (auto split: option.splits)

lemma processUpdate_distinct:
  "distinct (map fst m) \<Longrightarrow> distinct (map fst (processUpdate sid now ti ri m u))"
  using processUpdate_cases [of sid now ti ri m u] by (auto simp: Map_push_distinct)

lemma foldl_processUpdate_distinct:
  "distinct (map fst m) \<Longrightarrow> distinct (map fst (foldl (processUpdate sid now ti ri) m us))"
  by (induction us arbitrary: m) (simp_all add: processUpdate_distinct)

lemma processEntity_distinct:
  "distinct (map fst m) \<Longrightarrow> distinct (map fst (processEntity sid rf now m e))"
  unfolding processEntity_def Let_def
  by (auto simp: foldl_processUpdate_distinct split: option.splits)

lemma collectArrivals_distinct: "distinct (map fst (collectArrivals sid rf now feed))"
proof -
  have "distinct (map fst m) \<Longrightarrow> distinct (map fst (foldl (processEntity sid rf now) m feed))" for m
    by (induction feed arbitrary: m) (simp_all add: processEntity_distinct)
  then show ?thesis unfolding collectArrivals_def by simp
qed

lemma arrivalGroup_entries:
  "b \<in> set (results (foldl (arrivalGroup svc sid now mx) out gs)) \<Longrightarrow>
     b \<in> set (results out) \<or>
     (\<exists>ad. (ba_routeId b, ad) \<in> set gs \<and>
        arrivalTimes b = map (arrivalTimeWithHeadsign svc now) (slice0 mx (sort_key ad_time ad)))"
proof (induction gs arbitrary: out)
  case Nil
  then show ?case by simp
next
  case (Cons g gs)
  obtain rid ad where g: "g = (rid, ad)" by (cases g)
  from Cons.prems
  have "b \<in> set (results (foldl (arrivalGroup svc sid now mx) (arrivalGroup svc sid now mx out g) gs))"
    by simp
  from Cons.IH [OF this] show ?case
  proof
    assume "b \<in> set (results (arrivalGroup svc sid now mx out g))"
    then show ?thesis unfolding g
      by (auto simp: arrivalGroup_def Let_def split: option.splits)
  next
    assume "\<exists>ad. (ba_routeId b, ad) \<in> set gs \<and>
        arrivalTimes b = map (arrivalTimeWithHeadsign svc now) (slice0 mx (sort_key ad_time ad))"
    then show ?thesis by auto
  qed
qed

lemma spec_keptArrivals_props:
  "x \<in> set (spec_keptArrivals sid rf now feed rid) \<Longrightarrow>
     spec_passesFilter rf rid \<and> now < ad_time x \<and> ad_time x < now + 7200"
  by (auto simp: spec_keptArrivals_def spec_entityArrivals_def spec_arrivalOf_def
      split: option.splits if_splits)

lemma spec_keptArrivals_member:
  assumes "e \<in> set feed" "fe_tripUpdate e = Some tu" "tu_stopTimeUpdate tu = Some us"
    and "tu_trip tu = Some tr" "tdesc_tripId tr = Some tid" "tid \<noteq> []"
    and "tdesc_routeId tr = Some rid" "rid \<noteq> []"
    and "u \<in> set us" "spec_updateMatches sid u"
  shows "spec_arrivalOf tid u \<in> set (spec_keptArrivals sid rf now feed rid) \<longleftrightarrow>
     spec_passesFilter rf rid \<and> now < spec_arrivalTime u \<and> spec_arrivalTime u < now + 7200"
proof
  assume "spec_arrivalOf tid u \<in> set (spec_keptArrivals sid rf now feed rid)"
  from spec_keptArrivals_props [OF this]
  show "spec_passesFilter rf rid \<and> now < spec_arrivalTime u \<and> spec_arrivalTime u < now + 7200"
    by (simp add: spec_arrivalOf_def)
next
  assume k: "spec_passesFilter rf rid \<and> now < spec_arrivalTime u \<and> spec_arrivalTime u < now + 7200"
  have "spec_arrivalOf tid u \<in> set (spec_entityArrivals sid rf now rid e)"
    using assms k by (simp add: spec_entityArrivals_def)
  then show "spec_arrivalOf tid u \<in> set (spec_keptArrivals sid rf now feed rid)"
    using assms(1) by (auto simp: spec_keptArrivals_def)
qed

lemma collected_iff:
  "(\<exists>g. (if K = [] then None else Some K) = Some g \<and> x \<in> set g) \<longleftrightarrow> x \<in> set K"
  by (cases K) auto

lemmas arrivals_eval = getNextArrivals_def collectArrivals_def processEntity_def processUpdate_def
  Map_push_def Map_has_def Map_get_def Map_set_def Let_def arrivalGroup_def slice0_def
  arrivalTimeWithHeadsign_def headsignOf_def getArrivalStatus_def int_toString_def
  nat_digits.simps digit_chr_def

text \<open>
  C1 as stated fails for the result of \<open>getNextArrivals\<close>. At \<open>now = 1000\<close> an update
  for the requested stop with its arrival time 1100, trip id and route id 1 set lies in
  the window, and is not returned when the route filter names route 2, nor when route 1 is
  not in the route index (the warning is logged instead); and of two such updates at 1100
  and 1200 the second is not returned when \<open>maxArrivals = 1\<close>.
\<close>

theorem arrival_window_counterexample:
  "getNextArrivals
      \<lparr> routes = [(''1'', \<lparr> route_routeId = ''1'', shortName = ''1'', longName = ''University/Downtown'',
                            routeColor = ''000000'', routeTextColor = ''FFFFFF'' \<rparr>)],
        trips = [], stops = [], stopTimes = [] \<rparr>
      (Decoded
        [\<lparr> fe_id = ''e1'', fe_tripUpdate = Some \<lparr> tu_trip = Some \<lparr> tdesc_tripId = Some ''T1'', tdesc_routeId = Some ''1'' \<rparr>,
            tu_stopTimeUpdate = Some [\<lparr> stu_stopId = ''12345'',
               stu_arrival = Some \<lparr> ev_delay = None, ev_time = Some (Long 1100), ev_uncertainty = None \<rparr>,
               stu_scheduleRelationship = None \<rparr>] \<rparr> \<rparr>])
      1000 ''12345'' (Some ''2'') 5
   = Inr \<lparr> results = [], warnings = [] \<rparr> \<and>
   getNextArrivals
      \<lparr> routes = [], trips = [], stops = [], stopTimes = [] \<rparr>
      (Decoded
        [\<lparr> fe_id = ''e1'', fe_tripUpdate = Some \<lparr> tu_trip = Some \<lparr> tdesc_tripId = Some ''T1'', tdesc_routeId = Some ''1'' \<rparr>,
            tu_stopTimeUpdate = Some [\<lparr> stu_stopId = ''12345'',
               stu_arrival = Some \<lparr> ev_delay = None, ev_time = Some (Long 1100), ev_uncertainty = None \<rparr>,
               stu_scheduleRelationship = None \<rparr>] \<rparr> \<rparr>])
      1000 ''12345'' None 5
   = Inr \<lparr> results = [], warnings = [''  No route details found for route ID: 1''] \<rparr> \<and>
   map (\<lambda>b. map at_time (arrivalTimes b))
     (case getNextArrivals
        \<lparr> routes = [(''1'', \<lparr> route_routeId = ''1'', shortName = ''1'', longName = ''University/Downtown'',
                            routeColor = ''000000'', routeTextColor = ''FFFFFF'' \<rparr>)],
          trips = [], stops = [], stopTimes = [] \<rparr>
        (Decoded
          [\<lparr> fe_id = ''e1'', fe_tripUpdate = Some \<lparr> tu_trip = Some \<lparr> tdesc_tripId = Some ''T1'', tdesc_routeId = Some ''1'' \<rparr>,
              tu_stopTimeUpdate = Some [\<lparr> stu_stopId = ''12345'',
                 stu_arrival = Some \<lparr> ev_delay = None, ev_time = Some (Long 1100), ev_uncertainty = None \<rparr>,
                 stu_scheduleRelationship = None \<rparr>] \<rparr> \<rparr>,
           \<lparr> fe_id = ''e2'', fe_tripUpdate = Some \<lparr> tu_trip = Some \<lparr> tdesc_tripId = Some ''T2'', tdesc_routeId = Some ''1'' \<rparr>,
              tu_stopTimeUpdate = Some [\<lparr> stu_stopId = ''12345'',
                 stu_arrival = Some \<lparr> ev_delay = None, ev_time = Some (Long 1200), ev_uncertainty = None \<rparr>,
                 stu_scheduleRelationship = None \<rparr>] \<rparr> \<rparr>])
        1000 ''12345'' None 1
      of Inl err \<Rightarrow> [] | Inr out \<Rightarrow> results out)
   = [[1100]]"
  by (simp add: arrivals_eval)

text \<open>
  C1, amended. On a decoded feed \<open>getNextArrivals\<close> returns normally. An update that
  matches the requested stop and has its arrival time set, in an entity whose trip id and
  route id are set, is collected for its route if and only if the route passes the route
  filter and the arrival time \<open>t\<close> satisfies \<open>now < t < now + 7200\<close>; the arrivals
  collected for a route are exactly these, in the order of the feed. The result holds one
  entry for each route with a collected arrival that is in the route index, in the order
  in which the routes are first met, and no entry for any other route; the arrival times
  of an entry are the collected arrivals of its route, sorted by time and cut by
  \<open>slice(0, maxArrivals)\<close>.
\<close>

theorem getNextArrivals_window:
  "\<exists>out. getNextArrivals svc (Decoded feed) now sid rf mx = Inr out \<and>
     (\<forall>e \<in> set feed. \<forall>tu us tr tid rid u.
         fe_tripUpdate e = Some tu \<and> tu_stopTimeUpdate tu = Some us \<and> tu_trip tu = Some tr \<and>
         tdesc_tripId tr = Some tid \<and> tid \<noteq> [] \<and> tdesc_routeId tr = Some rid \<and> rid \<noteq> [] \<and>
         u \<in> set us \<and> spec_updateMatches sid u \<longrightarrow>
           ((\<exists>g. Map_get (collectArrivals sid rf now feed) rid = Some g \<and>
                 spec_arrivalOf tid u \<in> set g) \<longleftrightarrow>
              spec_passesFilter rf rid \<and> now < spec_arrivalTime u \<and> spec_arrivalTime u < now + 7200)) \<and>
     (\<forall>rid. Map_get (collectArrivals sid rf now feed) rid =
              (if spec_keptArrivals sid rf now feed rid = [] then None
               else Some (spec_keptArrivals sid rf now feed rid))) \<and>
     map ba_routeId (results out) =
       filter (\<lambda>rid. Map_get (routes svc) rid \<noteq> None) (map fst (collectArrivals sid rf now feed)) \<and>
     distinct (map ba_routeId (results out)) \<and>
     (\<forall>rid. rid \<in> ba_routeId ` set (results out) \<longleftrightarrow>
              spec_keptArrivals sid rf now feed rid \<noteq> [] \<and> Map_get (routes svc) rid \<noteq> None) \<and>
     (\<forall>b \<in> set (results out).
         arrivalTimes b = map (arrivalTimeWithHeadsign svc now)
           (slice0 mx (sort_key ad_time (spec_keptArrivals sid rf now feed (ba_routeId b)))))"
proof -
  let ?groups = "collectArrivals sid rf now feed"
  let ?out = "foldl (arrivalGroup svc sid now mx) \<lparr> results = [], warnings = [] \<rparr> ?groups"
  have run: "getNextArrivals svc (Decoded feed) now sid rf mx = Inr ?out"
    by (simp add: getNextArrivals_def)
  have mem: "\<forall>e \<in> set feed. \<forall>tu us tr tid rid u.
         fe_tripUpdate e = Some tu \<and> tu_stopTimeUpdate tu = Some us \<and> tu_trip tu = Some tr \<and>
         tdesc_tripId tr = Some tid \<and> tid \<noteq> [] \<and> tdesc_routeId tr = Some rid \<and> rid \<noteq> [] \<and>
         u \<in> set us \<and> spec_updateMatches sid u \<longrightarrow>
           ((\<exists>g. Map_get ?groups rid = Some g \<and> spec_arrivalOf tid u \<in> set g) \<longleftrightarrow>
              spec_passesFilter rf rid \<and> now < spec_arrivalTime u \<and> spec_arrivalTime u < now + 7200)"
  proof (intro ballI allI impI)
    fix e tu us tr tid rid u
    assume e: "e \<in> set feed"
      and h: "fe_tripUpdate e = Some tu \<and> tu_stopTimeUpdate tu = Some us \<and> tu_trip tu = Some tr \<and>
         tdesc_tripId tr = Some tid \<and> tid \<noteq> [] \<and> tdesc_routeId tr = Some rid \<and> rid \<noteq> [] \<and>
         u \<in> set us \<and> spec_updateMatches sid u"
    have "(\<exists>g. Map_get ?groups rid = Some g \<and> spec_arrivalOf tid u \<in> set g) \<longleftrightarrow>
        spec_arrivalOf tid u \<in> set (spec_keptArrivals sid rf now feed rid)"
      unfolding collectArrivals_get by (rule collected_iff)
    also have "\<dots> \<longleftrightarrow>
        spec_passesFilter rf rid \<and> now < spec_arrivalTime u \<and> spec_arrivalTime u < now + 7200"
      using spec_keptArrivals_member [of e feed tu us tr tid rid u sid rf now] e h by blast
    finally show "(\<exists>g. Map_get ?groups rid = Some g \<and> spec_arrivalOf tid u \<in> set g) \<longleftrightarrow>
        spec_passesFilter rf rid \<and> now < spec_arrivalTime u \<and> spec_arrivalTime u < now + 7200" .
  qed
  have get: "\<forall>rid. Map_get ?groups rid =
              (if spec_keptArrivals sid rf now feed rid = [] then None
               else Some (spec_keptArrivals sid rf now feed rid))"
    by (simp add: collectArrivals_get)
  have ids: "map ba_routeId (results ?out) =
       filter (\<lambda>rid. Map_get (routes svc) rid \<noteq> None) (map fst ?groups)"
    by (simp add: arrivalGroup_results)
  have dist: "distinct (map ba_routeId (results ?out))"
    unfolding ids by (rule distinct_filter) (rule collectArrivals_distinct)
  have which: "\<forall>rid. rid \<in> ba_routeId ` set (results ?out) \<longleftrightarrow>
              spec_keptArrivals sid rf now feed rid \<noteq> [] \<and> Map_get (routes svc) rid \<noteq> None"
  proof
    fix rid
    have "rid \<in> ba_routeId ` set (results ?out) \<longleftrightarrow> rid \<in> set (map ba_routeId (results ?out))"
      by simp
    also have "\<dots> \<longleftrightarrow> rid \<in> set (map fst ?groups) \<and> Map_get (routes svc) rid \<noteq> None"
      unfolding ids by auto
    also have "rid \<in> set (map fst ?groups) \<longleftrightarrow> spec_keptArrivals sid rf now feed rid \<noteq> []"
      unfolding Map_get_keys using get by simp
    finally show "rid \<in> ba_routeId ` set (results ?out) \<longleftrightarrow>
              spec_keptArrivals sid rf now feed rid \<noteq> [] \<and> Map_get (routes svc) rid \<noteq> None" .
  qed
  have times: "\<forall>b \<in> set (results ?out).
         arrivalTimes b = map (arrivalTimeWithHeadsign svc now)
           (slice0 mx (sort_key ad_time (spec_keptArrivals sid rf now feed (ba_routeId b))))"
  proof
    fix b assume "b \<in> set (results ?out)"
    from arrivalGroup_entries [OF this]
    obtain ad where ad: "(ba_routeId b, ad) \<in> set ?groups"
        "arrivalTimes b = map (arrivalTimeWithHeadsign svc now) (slice0 mx (sort_key ad_time ad))"
      by auto
    have "Map_get ?groups (ba_routeId b) = Some ad"
      using collectArrivals_distinct ad(1) by (rule Map_get_distinct)
    with get have "ad = spec_keptArrivals sid rf now feed (ba_routeId b)"
      by (simp split: if_splits)
    with ad(2) show "arrivalTimes b = map (arrivalTimeWithHeadsign svc now)
           (slice0 mx (sort_key ad_time (spec_keptArrivals sid rf now feed (ba_routeId b))))"
      by simp
  qed
  from run mem get ids dist which times show ?thesis by blast
qed

text \<open>
  At \<open>now = 1000\<close> one trip of route 1 has four updates for stop 12345, at 8201
  (\<open>now + 7201\<close>), 8199 (\<open>now + 7199\<close>), 1000 (\<open>now\<close>) and 999 (\<open>now - 1\<close>): the
  update at 8199 alone is collected and returned.
\<close>

theorem getNextArrivals_window_witness:
  "map (\<lambda>b. (ba_routeId b, map at_time (arrivalTimes b)))
     (case getNextArrivals
        \<lparr> routes = [(''1'', \<lparr> route_routeId = ''1'', shortName = ''1'', longName = ''University/Downtown'',
                            routeColor = ''000000'', routeTextColor = ''FFFFFF'' \<rparr>)],
          trips = [], stops = [], stopTimes = [] \<rparr>
        (Decoded
          [\<lparr> fe_id = ''e1'', fe_tripUpdate = Some \<lparr> tu_trip = Some \<lparr> tdesc_tripId = Some ''T1'', tdesc_routeId = Some ''1'' \<rparr>,
              tu_stopTimeUpdate = Some
                [\<lparr> stu_stopId = ''12345'',
                   stu_arrival = Some \<lparr> ev_delay = None, ev_time = Some (Long 8201), ev_uncertainty = None \<rparr>,
                   stu_scheduleRelationship = None \<rparr>,
                 \<lparr> stu_stopId = ''12345'',
                   stu_arrival = Some \<lparr> ev_delay = None, ev_time = Some (Long 8199), ev_uncertainty = None \<rparr>,
                   stu_scheduleRelationship = None \<rparr>,
                 \<lparr> stu_stopId = ''12345'',
                   stu_arrival = Some \<lparr> ev_delay = None, ev_time = Some (Long 1000), ev_uncertainty = None \<rparr>,
                   stu_scheduleRelationship = None \<rparr>,
                 \<lparr> stu_stopId = ''12345'',
                   stu_arrival = Some \<lparr> ev_delay = None, ev_time = Some (Long 999), ev_uncertainty = None \<rparr>,
                   stu_scheduleRelationship = None \<rparr>] \<rparr> \<rparr>])
        1000 ''12345'' None 5
      of Inl err \<Rightarrow> [] | Inr out \<Rightarrow> results out)
   = [(''1'', [8199])] \<and>
   spec_keptArrivals ''12345'' None 1000
      [\<lparr> fe_id = ''e1'', fe_tripUpdate = Some \<lparr> tu_trip = Some \<lparr> tdesc_tripId = Some ''T1'', tdesc_routeId = Some ''1'' \<rparr>,
              tu_stopTimeUpdate = Some
                [\<lparr> stu_stopId = ''12345'',
                   stu_arrival = Some \<lparr> ev_delay = None, ev_time = Some (Long 8201), ev_uncertainty = None \<rparr>,
                   stu_scheduleRelationship = None \<rparr>,
                 \<lparr> stu_stopId = ''12345'',
                   stu_arrival = Some \<lparr> ev_delay = None, ev_time = Some (Long 8199), ev_uncertainty = None \<rparr>,
                   stu_scheduleRelationship = None \<rparr>,
                 \<lparr> stu_stopId = ''12345'',
                   stu_arrival = Some \<lparr> ev_delay = None, ev_time = Some (Long 1000), ev_uncertainty = None \<rparr>,
                   stu_scheduleRelationship = None \<rparr>,
                 \<lparr> stu_stopId = ''12345'',
                   stu_arrival = Some \<lparr> ev_delay = None, ev_time = Some (Long 999), ev_uncertainty = None \<rparr>,
                   stu_scheduleRelationship = None \<rparr>] \<rparr> \<rparr>] ''1''
   = [\<lparr> ad_time = 8199, ad_tripId = ''T1'', ad_delay = 0, ad_uncertainty = None,
        ad_scheduleRelationship = None \<rparr>]"
  using getNextArrivals_window [where svc = "\<lparr> routes = [(''1'', \<lparr> route_routeId = ''1'', shortName = ''1'', longName = ''University/Downtown'',
                            routeColor = ''000000'', routeTextColor = ''FFFFFF'' \<rparr>)],
          trips = [], stops = [], stopTimes = [] \<rparr>"
      and feed = "[\<lparr> fe_id = ''e1'', fe_tripUpdate = Some \<lparr> tu_trip = Some \<lparr> tdesc_tripId = Some ''T1'', tdesc_routeId = Some ''1'' \<rparr>,
              tu_stopTimeUpdate = Some
                [\<lparr> stu_stopId = ''12345'',
                   stu_arrival = Some \<lparr> ev_delay = None, ev_time = Some (Long 8201), ev_uncertainty = None \<rparr>,
                   stu_scheduleRelationship = None \<rparr>,
                 \<lparr> stu_stopId = ''12345'',
                   stu_arrival = Some \<lparr> ev_delay = None, ev_time = Some (Long 8199), ev_uncertainty = None \<rparr>,
                   stu_scheduleRelationship = None \<rparr>,
                 \<lparr> stu_stopId = ''12345'',
                   stu_arrival = Some \<lparr> ev_delay = None, ev_time = Some (Long 1000), ev_uncertainty = None \<rparr>,
                   stu_scheduleRelationship = None \<rparr>,
                 \<lparr> stu_stopId = ''12345'',
                   stu_arrival = Some \<lparr> ev_delay = None, ev_time = Some (Long 999), ev_uncertainty = None \<rparr>,
                   stu_scheduleRelationship = None \<rparr>] \<rparr> \<rparr>]"
      and now = 1000 and sid = "''12345''" and rf = None and mx = 5]
  by (simp add: arrivals_eval spec_keptArrivals_def spec_entityArrivals_def spec_passesFilter_def
      spec_updateMatches_def spec_arrivalTime_def spec_arrivalOf_def)

subsection \<open>The GTFS time of day\<close>

lemma split_chr_no_sep: "sep \<notin> set s \<Longrightarrow> split_chr sep s = [s]"
  by (induction s) auto

lemma split_chr_append:
  "sep \<notin> set a \<Longrightarrow> split_chr sep (a @ sep # b) = a # split_chr sep b"
  by (induction a) auto

lemma colon_not_digit: "list_all isDigit s \<Longrightarrow> CHR '':'' \<notin> set s"
  by (auto simp: list_all_iff isDigit_def)

lemma digit_not_space: "isDigit c \<Longrightarrow> \<not> isWhiteSpace c"
  by (auto simp: isDigit_def isWhiteSpace_def)

lemma dropWhile_none: "(\<And>c. c \<in> set s \<Longrightarrow> \<not> P c) \<Longrightarrow> dropWhile P s = s"
  by (cases s) simp_all

lemma trim_digits: "list_all isDigit s \<Longrightarrow> trim s = s"
proof -
  assume d: "list_all isDigit s"
  then have a: "dropWhile isWhiteSpace s = s"
    by (intro dropWhile_none) (auto simp: list_all_iff digit_not_space)
  from d have "dropWhile isWhiteSpace (rev s) = rev s"
    by (intro dropWhile_none) (auto simp: list_all_iff digit_not_space)
  with a show ?thesis by (simp add: trim_def)
qed

lemma parseUnsignedDecimal_digits:
  assumes "list_all isDigit s" "s \<noteq> []"
  shows "parseUnsignedDecimal s = Finite (of_int (decimalValue s))"
proof -
  have "\<not> isDigit CHR ''I''" by (simp add: isDigit_def)
  with assms(1) have ninf: "s \<noteq> ''Infinity''" by auto
  have tw: "takeWhile isDigit s = s" using assms(1) by (simp add: takeWhile_eq_all_conv list_all_iff)
  have dw: "dropWhile isDigit s = []" using assms(1) by (simp add: list_all_iff)
  show ?thesis
    using assms(2) ninf by (simp add: parseUnsignedDecimal_def tw dw Let_def scale10_def)
qed

lemma Number_str_digits:
  assumes "list_all isDigit s"
  shows "Number_str s = Finite (of_int (decimalValue s))"
proof (cases s)
  case Nil
  then show ?thesis by (simp add: Number_str_def trim_def decimalValue_def)
next
  case (Cons c r)
  with assms have c: "isDigit c" and r: "list_all isDigit r" by simp_all
  from c have sign: "c \<noteq> CHR ''+''" "c \<noteq> CHR ''-''" by (auto simp: isDigit_def)
  have t: "trim s = c # r" using assms Cons by (simp add: trim_digits)
  show ?thesis
  proof (cases r)
    case Nil
    with Cons have sc: "s = [c]" by simp
    have "parseUnsignedDecimal [c] = Finite (of_int (decimalValue s))"
      using parseUnsignedDecimal_digits [OF assms] sc by simp
    with sign t Nil show ?thesis
      by (simp add: Number_str_def)
  next
    case (Cons p ds)
    with r have "isDigit p" by simp
    then have px: "p \<noteq> CHR ''x''" "p \<noteq> CHR ''X''" "p \<noteq> CHR ''o''" "p \<noteq> CHR ''O''"
        "p \<noteq> CHR ''b''" "p \<noteq> CHR ''B''"
      by (auto simp: isDigit_def)
    have "parseUnsignedDecimal (c # r) = Finite (of_int (decimalValue s))"
      using parseUnsignedDecimal_digits [OF assms] \<open>s = c # r\<close> by simp
    with sign px t Cons show ?thesis
      by (simp add: Number_str_def)
  qed
qed

lemma split_time:
  assumes "list_all isDigit hh" "list_all isDigit mm" "list_all isDigit ss"
  shows "map Number_str (split_chr CHR '':'' (hh @ '':'' @ mm @ '':'' @ ss)) =
     [Finite (of_int (decimalValue hh)), Finite (of_int (decimalValue mm)),
      Finite (of_int (decimalValue ss))]"
proof -
  have "CHR '':'' \<notin> set hh" "CHR '':'' \<notin> set mm" "CHR '':'' \<notin> set ss"
    using assms by (auto dest!: colon_not_digit)
  then have "split_chr CHR '':'' (hh @ '':'' @ mm @ '':'' @ ss) = [hh, mm, ss]"
    by (simp add: split_chr_append split_chr_no_sep)
  then show ?thesis using assms by (simp add: Number_str_digits)
qed

lemma parseGtfsTime_fields:
  assumes "list_all isDigit hh" "list_all isDigit mm" "list_all isDigit ss"
  shows "parseGtfsTime z now (hh @ '':'' @ mm @ '':'' @ ss) =
     (if 24 \<le> decimalValue hh then
        Date_setHours z (Date_setDateNext z (Date_localDay z now))
          (Finite (of_int (decimalValue hh - 24)))
          (Finite (of_int (decimalValue mm))) (Finite (of_int (decimalValue ss)))
      else
        Date_setHours z (Date_localDay z now)
          (Finite (of_int (decimalValue hh)))
          (Finite (of_int (decimalValue mm))) (Finite (of_int (decimalValue ss))))"
  unfolding parseGtfsTime_def split_time [OF assms]
  by (simp add: Let_def field_def)

lemma ToIntegerOrInfinity_int: "ToIntegerOrInfinity (of_int n) = n"
  by (simp add: ToIntegerOrInfinity_def)

lemma MakeTime_ints:
  "MakeTime (Finite (of_int h)) (Finite (of_int m)) (Finite (of_int s)) = Some (h * 3600 + m * 60 + s)"
  by (simp add: MakeTime_def ToIntegerOrInfinity_int)

lemma parseGtfsTime_regular:
  fixes z :: TimeZone and now :: int
  defines "L0 \<equiv> (now + tzaOfUtc z now) div 86400 * 86400"
  assumes "list_all isDigit hh" "list_all isDigit mm" "list_all isDigit ss"
    and c0: "\<bar>L0 - tzaOfLocal z L0\<bar> \<le> 8640000000000"
    and r0: "(L0 - tzaOfLocal z L0) + tzaOfUtc z (L0 - tzaOfLocal z L0) = L0"
    and c1: "\<bar>(L0 + 86400) - tzaOfLocal z (L0 + 86400)\<bar> \<le> 8640000000000"
    and r1: "((L0 + 86400) - tzaOfLocal z (L0 + 86400))
               + tzaOfUtc z ((L0 + 86400) - tzaOfLocal z (L0 + 86400)) = L0 + 86400"
  shows "parseGtfsTime z now (hh @ '':'' @ mm @ '':'' @ ss) =
     (let l = L0 + (decimalValue hh * 3600 + decimalValue mm * 60 + decimalValue ss);
          t = l - tzaOfLocal z l
      in if \<bar>t\<bar> \<le> 8640000000000 then Some t else None)"
proof -
  let ?H = "decimalValue hh" and ?M = "decimalValue mm" and ?S = "decimalValue ss"
  have today: "Date_localDay z now = Some (L0 - tzaOfLocal z L0)"
    using c0 by (simp add: Date_localDay_def TimeClip_def UTC_def LocalTime_def Day_def L0_def)
  have lt0: "LocalTime z (L0 - tzaOfLocal z L0) = L0"
    using r0 by (simp add: LocalTime_def)
  have d0: "Day L0 * 86400 = L0" "TimeWithinDay L0 = 0"
    by (simp_all add: Day_def TimeWithinDay_def L0_def)
  have nxt: "Date_setDateNext z (Date_localDay z now) = Some ((L0 + 86400) - tzaOfLocal z (L0 + 86400))"
  proof -
    have eq: "(Day L0 + 1) * 86400 + TimeWithinDay L0 = L0 + 86400"
      using d0 by (simp add: algebra_simps)
    have "Date_setDateNext z (Date_localDay z now)
        = TimeClip (UTC z ((Day L0 + 1) * 86400 + TimeWithinDay L0))"
      by (simp add: today Date_setDateNext_def lt0)
    also have "\<dots> = TimeClip (UTC z (L0 + 86400))" by (simp only: eq)
    also have "\<dots> = Some ((L0 + 86400) - tzaOfLocal z (L0 + 86400))"
      using c1 by (simp add: TimeClip_def UTC_def)
    finally show ?thesis .
  qed
  have lt1: "LocalTime z ((L0 + 86400) - tzaOfLocal z (L0 + 86400)) = L0 + 86400"
    using r1 by (simp add: LocalTime_def)
  have d1: "Day (L0 + 86400) * 86400 = L0 + 86400"
    by (simp add: Day_def L0_def)
  have pf: "parseGtfsTime z now (hh @ '':'' @ mm @ '':'' @ ss) =
     (if 24 \<le> ?H then
        Date_setHours z (Date_setDateNext z (Date_localDay z now))
          (Finite (of_int (?H - 24))) (Finite (of_int ?M)) (Finite (of_int ?S))
      else
        Date_setHours z (Date_localDay z now)
          (Finite (of_int ?H)) (Finite (of_int ?M)) (Finite (of_int ?S)))"
    using assms(2-4) by (rule parseGtfsTime_fields)
  show ?thesis
  proof (cases "24 \<le> ?H")
    case True
    have l: "Day (L0 + 86400) * 86400 + ((?H - 24) * 3600 + ?M * 60 + ?S)
        = L0 + (?H * 3600 + ?M * 60 + ?S)"
      unfolding d1 by (simp add: algebra_simps)
    have "parseGtfsTime z now (hh @ '':'' @ mm @ '':'' @ ss) =
        Date_setHours z (Some ((L0 + 86400) - tzaOfLocal z (L0 + 86400)))
          (Finite (of_int (?H - 24))) (Finite (of_int ?M)) (Finite (of_int ?S))"
      unfolding pf nxt using True by (simp only: if_True)
    also have "\<dots> = TimeClip (UTC z (Day (L0 + 86400) * 86400 + ((?H - 24) * 3600 + ?M * 60 + ?S)))"
      by (simp only: Date_setHours_def option.case MakeTime_ints lt1)
    also have "\<dots> = TimeClip (UTC z (L0 + (?H * 3600 + ?M * 60 + ?S)))"
      by (simp only: l)
    finally show ?thesis by (simp add: TimeClip_def UTC_def Let_def)
  next
    case False
    have "parseGtfsTime z now (hh @ '':'' @ mm @ '':'' @ ss) =
        Date_setHours z (Some (L0 - tzaOfLocal z L0))
          (Finite (of_int ?H)) (Finite (of_int ?M)) (Finite (of_int ?S))"
      unfolding pf today using False by (simp only: if_False)
    also have "\<dots> = TimeClip (UTC z (Day L0 * 86400 + (?H * 3600 + ?M * 60 + ?S)))"
      by (simp only: Date_setHours_def option.case MakeTime_ints lt0)
    also have "\<dots> = TimeClip (UTC z (L0 + (?H * 3600 + ?M * 60 + ?S)))"
      by (simp only: d0)
    finally show ?thesis by (simp add: TimeClip_def UTC_def Let_def)
  qed
qed

subsection \<open>One departure per timestamp, one stop time per trip\<close>

lemma Map_has_iff: "Map_has u k \<longleftrightarrow> k \<in> fst ` set u"
  by (simp add: Map_has_def map_of_eq_None_iff)

lemma find_append_list:
  "find P (xs @ ys) = (case find P xs of None \<Rightarrow> find P ys | Some x \<Rightarrow> Some x)"
  by (induction xs) auto

lemma find_None_iff_set: "find P xs = None \<longleftrightarrow> (\<forall>x \<in> set xs. \<not> P x)"
  by (induction xs) auto

lemma uniqueDepartures_snoc:
  "uniqueDepartures (ds @ [d]) =
     (if dd_time d \<in> fst ` set (uniqueDepartures ds) then uniqueDepartures ds
      else uniqueDepartures ds @ [(dd_time d, d)])"
  by (simp add: uniqueDepartures_def Map_has_iff Map_set_def update_fresh map_of_eq_None_iff)

lemma uniqueDepartures_keys:
  "e \<in> set (uniqueDepartures ds) \<Longrightarrow> fst e = dd_time (snd e)"
proof (induction ds arbitrary: e rule: rev_induct)
  case Nil
  then show ?case by (simp add: uniqueDepartures_def)
next
  case (snoc d ds)
  then show ?case unfolding uniqueDepartures_snoc by (auto split: if_splits)
qed

lemma uniqueDepartures_key_set:
  "fst ` set (uniqueDepartures ds) = dd_time ` set ds"
proof (induction ds rule: rev_induct)
  case Nil
  show ?case by (simp add: uniqueDepartures_def)
next
  case (snoc d ds)
  then show ?case unfolding uniqueDepartures_snoc by auto
qed

lemma uniqueDepartures_distinct_keys:
  "distinct (map fst (uniqueDepartures ds))"
proof (induction ds rule: rev_induct)
  case Nil
  show ?case by (simp add: uniqueDepartures_def)
next
  case (snoc d ds)
  then show ?case unfolding uniqueDepartures_snoc by auto
qed

lemma uniqueDepartures_first_entry:
  "e \<in> set (uniqueDepartures ds) \<Longrightarrow> find (\<lambda>x. dd_time x = fst e) ds = Some (snd e)"
proof (induction ds arbitrary: e rule: rev_induct)
  case Nil
  then show ?case by (simp add: uniqueDepartures_def)
next
  case (snoc d ds)
  show ?case
  proof (cases "dd_time d \<in> fst ` set (uniqueDepartures ds)")
    case True
    with snoc.prems have "e \<in> set (uniqueDepartures ds)"
      by (simp add: uniqueDepartures_snoc)
    then have "find (\<lambda>x. dd_time x = fst e) ds = Some (snd e)" by (rule snoc.IH)
    then show ?thesis by (simp add: find_append_list)
  next
    case False
    then have nin: "find (\<lambda>x. dd_time x = dd_time d) ds = None"
      unfolding uniqueDepartures_key_set find_None_iff_set by (metis imageI)
    from False snoc.prems have "e \<in> set (uniqueDepartures ds) \<or> e = (dd_time d, d)"
      by (auto simp: uniqueDepartures_snoc)
    then show ?thesis
    proof
      assume "e \<in> set (uniqueDepartures ds)"
      then have "find (\<lambda>x. dd_time x = fst e) ds = Some (snd e)" by (rule snoc.IH)
      then show ?thesis by (simp add: find_append_list)
    next
      assume "e = (dd_time d, d)"
      with nin show ?thesis by (simp add: find_append_list)
    qed
  qed
qed

lemma uniqueDepartures_values_times:
  "map dd_time (Map_values (uniqueDepartures ds)) = map fst (uniqueDepartures ds)"
  by (simp add: Map_values_def uniqueDepartures_keys)

lemma uniqueDepartures_times_distinct:
  "distinct (map dd_time (Map_values (uniqueDepartures ds)))"
  by (simp add: uniqueDepartures_values_times uniqueDepartures_distinct_keys)

lemma uniqueDepartures_times_set:
  "dd_time ` set (Map_values (uniqueDepartures ds)) = dd_time ` set ds"
proof -
  have "dd_time ` set (Map_values (uniqueDepartures ds)) = set (map dd_time (Map_values (uniqueDepartures ds)))"
    by simp
  also have "\<dots> = fst ` set (uniqueDepartures ds)"
    unfolding uniqueDepartures_values_times by simp
  finally show ?thesis by (simp add: uniqueDepartures_key_set)
qed

lemma uniqueDepartures_first:
  "d \<in> set (Map_values (uniqueDepartures ds)) \<Longrightarrow> find (\<lambda>x. dd_time x = dd_time d) ds = Some d"
proof -
  assume "d \<in> set (Map_values (uniqueDepartures ds))"
  then obtain e where e: "e \<in> set (uniqueDepartures ds)" "d = snd e"
    by (auto simp: Map_values_def)
  from uniqueDepartures_first_entry [OF e(1)] uniqueDepartures_keys [OF e(1)] e(2)
  show ?thesis by simp
qed

lemma filter_key_distinct:
  "distinct (map f xs) \<Longrightarrow> x \<in> set xs \<Longrightarrow> filter (\<lambda>y. f y = f x) xs = [x]"
proof (induction xs)
  case Nil
  then show ?case by simp
next
  case (Cons a xs)
  show ?case
  proof (cases "a = x")
    case True
    with Cons.prems have "f x \<notin> f ` set xs" by simp
    then have "\<forall>y \<in> set xs. f y \<noteq> f x" by (metis imageI)
    then have "filter (\<lambda>y. f y = f x) xs = []" by (simp add: filter_empty_conv)
    with True show ?thesis by simp
  next
    case False
    with Cons.prems have "x \<in> set xs" "f a \<noteq> f x" by auto
    with Cons show ?thesis by simp
  qed
qed

lemma find_Some_props: "find P xs = Some x \<Longrightarrow> x \<in> set xs \<and> P x"
  by (induction xs) (auto split: if_splits)

lemma uniqueDepartures_exactly_one:
  assumes "find (\<lambda>x. dd_time x = t) ds = Some d"
  shows "filter (\<lambda>x. dd_time x = t) (Map_values (uniqueDepartures ds)) = [d]"
proof -
  from assms have d: "d \<in> set ds" "dd_time d = t" using find_Some_props by fastforce+
  then have "t \<in> dd_time ` set (Map_values (uniqueDepartures ds))"
    by (auto simp: uniqueDepartures_times_set)
  then obtain e where e: "e \<in> set (Map_values (uniqueDepartures ds))" "dd_time e = t" by auto
  with uniqueDepartures_first [OF e(1)] assms have "e = d" by simp
  with e filter_key_distinct [OF uniqueDepartures_times_distinct, of d ds] d show ?thesis by simp
qed

lemma slice0_take: "\<exists>k. slice0 n xs = take k xs"
  by (auto simp: slice0_def)

lemma slice0_all: "int (length xs) \<le> n \<Longrightarrow> slice0 n xs = xs"
  by (auto simp: slice0_def)

lemma sortedDepartures_subset:
  "set (sortedDepartures mx ds) \<subseteq> set (Map_values (uniqueDepartures ds))"
proof -
  obtain k where "sortedDepartures mx ds = take k (sort_key dd_time (Map_values (uniqueDepartures ds)))"
    unfolding sortedDepartures_def using slice0_take by blast
  then show ?thesis using set_take_subset [of k "sort_key dd_time (Map_values (uniqueDepartures ds))"]
    by simp
qed

lemma distinct_map_sort_key: "distinct (map f (sort_key f xs)) = distinct (map f xs)"
proof -
  have "mset (map f (sort_key f xs)) = mset (map f xs)" by simp
  then show ?thesis by (rule mset_eq_imp_distinct_iff)
qed

lemma sortedDepartures_distinct: "distinct (map dd_time (sortedDepartures mx ds))"
proof -
  obtain k where "sortedDepartures mx ds = take k (sort_key dd_time (Map_values (uniqueDepartures ds)))"
    unfolding sortedDepartures_def using slice0_take by blast
  then have k: "map dd_time (sortedDepartures mx ds)
      = take k (map dd_time (sort_key dd_time (Map_values (uniqueDepartures ds))))"
    by (simp add: take_map)
  show ?thesis unfolding k
    by (rule distinct_take) (simp only: distinct_map_sort_key uniqueDepartures_times_distinct)
qed

lemma sortedDepartures_sorted: "sorted (map dd_time (sortedDepartures mx ds))"
proof -
  obtain k where "sortedDepartures mx ds = take k (sort_key dd_time (Map_values (uniqueDepartures ds)))"
    unfolding sortedDepartures_def using slice0_take by blast
  then have k: "map dd_time (sortedDepartures mx ds)
      = take k (map dd_time (sort_key dd_time (Map_values (uniqueDepartures ds))))"
    by (simp add: take_map)
  show ?thesis unfolding k by (rule sorted_wrt_take) (rule sorted_sort_key)
qed

lemma sortedDepartures_full:
  "int (length (Map_values (uniqueDepartures ds))) \<le> mx \<Longrightarrow>
     set (sortedDepartures mx ds) = set (Map_values (uniqueDepartures ds))"
  by (simp add: sortedDepartures_def slice0_all)

lemma sortedDepartures_at_most_one:
  assumes "find (\<lambda>x. dd_time x = t) ds = Some d"
  shows "filter (\<lambda>x. dd_time x = t) (sortedDepartures mx ds) = [d] \<or>
         filter (\<lambda>x. dd_time x = t) (sortedDepartures mx ds) = []"
proof (cases "\<exists>x \<in> set (sortedDepartures mx ds). dd_time x = t")
  case True
  then obtain x where x: "x \<in> set (sortedDepartures mx ds)" "dd_time x = t" by blast
  then have "x \<in> set (Map_values (uniqueDepartures ds))"
    using sortedDepartures_subset by blast
  from uniqueDepartures_first [OF this] x assms have "x = d" by simp
  with x filter_key_distinct [OF sortedDepartures_distinct, of d mx ds] show ?thesis by simp
next
  case False
  then show ?thesis by (simp add: filter_empty_conv)
qed

lemma sortedDepartures_exactly_one:
  assumes "find (\<lambda>x. dd_time x = t) ds = Some d"
    and "int (length (Map_values (uniqueDepartures ds))) \<le> mx"
  shows "filter (\<lambda>x. dd_time x = t) (sortedDepartures mx ds) = [d]"
proof -
  have "sortedDepartures mx ds = sort_key dd_time (Map_values (uniqueDepartures ds))"
    using assms(2) by (simp add: sortedDepartures_def slice0_all)
  then have "filter (\<lambda>x. dd_time x = t) (sortedDepartures mx ds)
      = filter (\<lambda>x. dd_time x = t) (Map_values (uniqueDepartures ds))"
    by (simp add: sort_key_stable)
  then show ?thesis using uniqueDepartures_exactly_one [OF assms(1)] by simp
qed


lemma departureGroup_fold:
  "b \<in> set (foldl (departureGroup svc sid now mx) res gs) \<Longrightarrow>
     b \<in> set res \<or>
     (\<exists>ds. (bd_routeId b, ds) \<in> set gs \<and>
        departureTimes b = map (departureTimeWithHeadsign svc now) (sortedDepartures mx ds))"
proof (induction gs arbitrary: res)
  case Nil
  then show ?case by simp
next
  case (Cons g gs)
  obtain rid ds where g: "g = (rid, ds)" by (cases g)
  from Cons.prems have "b \<in> set (foldl (departureGroup svc sid now mx) (departureGroup svc sid now mx res g) gs)"
    by simp
  from Cons.IH [OF this] show ?case
  proof
    assume "b \<in> set (departureGroup svc sid now mx res g)"
    then show ?thesis unfolding g
      by (auto simp: departureGroup_def Let_def split: option.splits)
  next
    assume "\<exists>ds. (bd_routeId b, ds) \<in> set gs \<and>
        departureTimes b = map (departureTimeWithHeadsign svc now) (sortedDepartures mx ds)"
    then show ?thesis by auto
  qed
qed

lemma update_entries_count:
  "map_of m k = Some l \<Longrightarrow>
     length (filter P (concat (map snd (AList.update k (l @ [x]) m)))) =
     length (filter P (concat (map snd m))) + (if P x then 1 else 0)"
  by (induction m) (auto split: if_splits)

lemma Map_push_entries_count:
  "length (filter P (concat (map snd (Map_push m k x)))) =
     length (filter P (concat (map snd m))) + (if P x then 1 else 0)"
  by (cases "map_of m k") (simp_all add: Map_push_alt update_entries_count)

lemma foldl_push_distinct:
  "distinct (map fst m) \<Longrightarrow> distinct (map fst (foldl (\<lambda>m st. Map_push m (f st) st) m rows))"
  by (induction rows arbitrary: m) (simp_all add: Map_push_distinct)

lemma sortStopTimes_keys: "map fst (sortStopTimes m) = map fst m"
  by (induction m) (auto simp: sortStopTimes_def)

lemma loadStopTimes_distinct: "distinct (map fst (loadStopTimes rows))"
  unfolding loadStopTimes_def sortStopTimes_keys by (rule foldl_push_distinct) simp

lemma loadStopTimes_sorted:
  "(tid, sts) \<in> set (loadStopTimes rows) \<Longrightarrow> sorted (map stopSequence sts)"
  by (auto simp: loadStopTimes_def sortStopTimes_def)

lemma sorted_find_least:
  "sorted (map f xs) \<Longrightarrow> find P xs = Some x \<Longrightarrow> y \<in> set xs \<Longrightarrow> P y \<Longrightarrow> f x \<le> f y"
  by (induction xs) (auto split: if_splits)

lemma find_first_visit:
  "find P (case find P xs of None \<Rightarrow> [] | Some x \<Rightarrow> [x]) = find P xs"
proof (cases "find P xs")
  case None
  then show ?thesis by simp
next
  case (Some x)
  then have "P x" using find_Some_props by fastforce
  with Some show ?thesis by simp
qed

lemma processTrip_first_visit:
  "processTrip svc z now sid rf acc
     (tid, case find (\<lambda>s. st_stopId s = sid) sts of None \<Rightarrow> [] | Some st \<Rightarrow> [st])
   = processTrip svc z now sid rf acc (tid, sts)"
  unfolding processTrip_def prod.case find_first_visit ..

lemma processTrip_other_stopTimes:
  "trips svc' = trips svc \<Longrightarrow> processTrip svc' z now sid rf acc e = processTrip svc z now sid rf acc e"
  by (simp add: processTrip_def)

lemma collect_first_visit:
  "foldl (processTrip svc z now sid rf) acc
     (map (\<lambda>(tid, sts). (tid, case find (\<lambda>s. st_stopId s = sid) sts of None \<Rightarrow> [] | Some st \<Rightarrow> [st])) m)
   = foldl (processTrip svc z now sid rf) acc m"
  by (induction m arbitrary: acc) (auto simp: processTrip_first_visit)

lemma departureTimeWithHeadsign_other_stopTimes:
  "trips svc' = trips svc \<Longrightarrow> departureTimeWithHeadsign svc' now = departureTimeWithHeadsign svc now"
  by (intro ext) (simp add: departureTimeWithHeadsign_def headsignOf_def)

lemma departureGroup_other_stopTimes:
  assumes "trips svc' = trips svc" and "routes svc' = routes svc"
  shows "departureGroup svc' sid now mx = departureGroup svc sid now mx"
proof -
  have d: "departureTimeWithHeadsign svc' now = departureTimeWithHeadsign svc now"
    using assms(1) by (rule departureTimeWithHeadsign_other_stopTimes)
  show ?thesis
    by (intro ext) (simp only: departureGroup_def d assms(2))
qed

lemma getScheduledDepartures_first_visit:
  "getScheduledDepartures
     (svc \<lparr> stopTimes := map (\<lambda>(tid, sts).
          (tid, case find (\<lambda>s. st_stopId s = sid) sts of None \<Rightarrow> [] | Some st \<Rightarrow> [st])) (stopTimes svc) \<rparr>)
     z now sid rf mx
   = getScheduledDepartures svc z now sid rf mx"
proof -
  let ?svc' = "svc \<lparr> stopTimes := map (\<lambda>(tid, sts).
          (tid, case find (\<lambda>s. st_stopId s = sid) sts of None \<Rightarrow> [] | Some st \<Rightarrow> [st])) (stopTimes svc) \<rparr>"
  have p: "processTrip ?svc' z now sid rf = processTrip svc z now sid rf"
    by (intro ext) (rule processTrip_other_stopTimes, simp)
  have c: "collectDepartures ?svc' z now sid rf = collectDepartures svc z now sid rf"
    unfolding collectDepartures_def p by (simp add: collect_first_visit)
  have g: "departureGroup ?svc' sid now mx = departureGroup svc sid now mx"
    by (rule departureGroup_other_stopTimes) simp_all
  show ?thesis unfolding getScheduledDepartures_def c g ..
qed

lemma processTrip_count:
  "length (filter (\<lambda>d. dd_tripId d = tid') (concat (map snd (processTrip svc z now sid rf acc e))))
     \<le> length (filter (\<lambda>d. dd_tripId d = tid') (concat (map snd acc))) + (if fst e = tid' then 1 else 0)"
  by (cases e) (simp add: processTrip_def Map_push_entries_count split: option.splits)

lemma collect_count:
  "length (filter (\<lambda>d. dd_tripId d = tid') (concat (map snd (foldl (processTrip svc z now sid rf) acc m))))
     \<le> length (filter (\<lambda>d. dd_tripId d = tid') (concat (map snd acc)))
        + length (filter (\<lambda>k. k = tid') (map fst m))"
proof (induction m arbitrary: acc)
  case Nil
  show ?case by simp
next
  case (Cons e m)
  have "length (filter (\<lambda>d. dd_tripId d = tid')
            (concat (map snd (foldl (processTrip svc z now sid rf) (processTrip svc z now sid rf acc e) m))))
      \<le> length (filter (\<lambda>d. dd_tripId d = tid') (concat (map snd (processTrip svc z now sid rf acc e))))
        + length (filter (\<lambda>k. k = tid') (map fst m))"
    by (rule Cons.IH)
  also have "\<dots> \<le> (length (filter (\<lambda>d. dd_tripId d = tid') (concat (map snd acc)))
        + (if fst e = tid' then 1 else 0)) + length (filter (\<lambda>k. k = tid') (map fst m))"
    using processTrip_count [of tid' svc z now sid rf acc e] by (rule add_le_mono1)
  finally show ?case by (auto split: if_splits)
qed

lemma distinct_filter_eq_le1: "distinct ks \<Longrightarrow> length (filter (\<lambda>k. k = a) ks) \<le> 1"
  by (induction ks) (auto simp: filter_empty_conv)

lemma collectDepartures_one_per_trip:
  assumes "distinct (map fst (stopTimes svc))"
  shows "length (filter (\<lambda>d. dd_tripId d = tid)
            (concat (map snd (collectDepartures svc z now sid rf)))) \<le> 1"
proof -
  have "length (filter (\<lambda>d. dd_tripId d = tid) (concat (map snd (collectDepartures svc z now sid rf))))
      \<le> 0 + length (filter (\<lambda>k. k = tid) (map fst (stopTimes svc)))"
    unfolding collectDepartures_def using collect_count [of tid svc z now sid rf "[]" "stopTimes svc"]
    by simp
  also have "\<dots> \<le> 1" using distinct_filter_eq_le1 [OF assms] by simp
  finally show ?thesis .
qed

subsection \<open>The collected departures and the result\<close>




lemma processTrip_cases:
  "processTrip svc z now sid rf m e = m \<or> (\<exists>r x. processTrip svc z now sid rf m e = Map_push m r x)"
  unfolding processTrip_def by (auto split: option.splits prod.splits)

lemma processTrip_distinct:
  "distinct (map fst m) \<Longrightarrow> distinct (map fst (processTrip svc z now sid rf m e))"
  using processTrip_cases [of svc z now sid rf m e] by (auto simp: Map_push_distinct)

lemma collectDepartures_distinct: "distinct (map fst (collectDepartures svc z now sid rf))"
proof -
  have "distinct (map fst m) \<Longrightarrow> distinct (map fst (foldl (processTrip svc z now sid rf) m ts))" for m ts
    by (induction ts arbitrary: m) (simp_all add: processTrip_distinct)
  then show ?thesis unfolding collectDepartures_def by simp
qed

lemma departureGroup_id:
  "map bd_routeId (departureGroup svc sid now mx res g) =
     map bd_routeId res @ (if Map_get (routes svc) (fst g) \<noteq> None then [fst g] else [])"
  by (cases g; cases "Map_get (routes svc) (fst g)") (simp_all add: departureGroup_def Let_def)

lemma departureGroup_ids:
  "map bd_routeId (foldl (departureGroup svc sid now mx) res gs) =
     map bd_routeId res @ filter (\<lambda>rid. Map_get (routes svc) rid \<noteq> None) (map fst gs)"
proof (induction gs arbitrary: res)
  case Nil
  show ?case by simp
next
  case (Cons g gs)
  show ?case unfolding foldl_Cons Cons.IH departureGroup_id by simp
qed




lemma take_sorted_distinct_mem:
  fixes xs :: "int list"
  shows "sorted xs \<Longrightarrow> distinct xs \<Longrightarrow> x \<in> set xs \<Longrightarrow>
     (x \<in> set (take k xs) \<longleftrightarrow> length (filter (\<lambda>y. y < x) xs) < k)"
proof (induction xs arbitrary: k)
  case Nil
  then show ?case by simp
next
  case (Cons a xs)
  show ?case
  proof (cases k)
    case 0
    then show ?thesis by simp
  next
    case (Suc k')
    show ?thesis
    proof (cases "x = a")
      case True
      from Cons.prems have "\<forall>y \<in> set xs. \<not> y < a" by auto
      then have "filter (\<lambda>y. y < a) xs = []" by (simp add: filter_empty_conv)
      with True Suc show ?thesis by simp
    next
      case False
      with Cons.prems have x: "x \<in> set xs" by simp
      with Cons.prems False have "a < x" by auto
      moreover have "x \<in> set (take k' xs) \<longleftrightarrow> length (filter (\<lambda>y. y < x) xs) < k'"
        using Cons.IH [of k'] Cons.prems x by simp
      ultimately show ?thesis using False Suc by simp
    qed
  qed
qed

lemma length_filter_distinct_set:
  "distinct xs \<Longrightarrow> distinct ys \<Longrightarrow> set xs = set ys \<Longrightarrow>
     length (filter P xs) = length (filter P ys)"
proof -
  assume a: "distinct xs" "distinct ys" "set xs = set ys"
  have "distinct (filter P xs)" "distinct (filter P ys)" using a by simp_all
  then have "length (filter P xs) = card (set (filter P xs))"
    and "length (filter P ys) = card (set (filter P ys))"
    by (simp_all only: distinct_card)
  moreover have "set (filter P xs) = set (filter P ys)" using a(3) by simp
  ultimately show ?thesis by simp
qed

lemma length_distinct_set:
  "distinct xs \<Longrightarrow> distinct ys \<Longrightarrow> set xs = set ys \<Longrightarrow> length xs = length ys"
  using length_filter_distinct_set [of xs ys "\<lambda>_. True"] by simp

lemma slice0_count: "slice0 n xs = take (spec_sliceCount n (length xs)) xs"
  by (simp add: slice0_def spec_sliceCount_def min_def)

lemma sortedDepartures_filter_exact:
  assumes f: "find (\<lambda>x. dd_time x = t) ds = Some d"
  shows "filter (\<lambda>x. dd_time x = t) (sortedDepartures mx ds) =
     (if length (filter (\<lambda>t'. t' < t) (spec_timestamps ds))
           < spec_sliceCount mx (length (spec_timestamps ds))
      then [d] else [])"
proof -
  let ?U = "Map_values (uniqueDepartures ds)"
  let ?S = "sort_key dd_time ?U"
  let ?xs = "map dd_time ?S"
  let ?k = "spec_sliceCount mx (length (spec_timestamps ds))"
  have dx: "distinct ?xs" by (simp only: distinct_map_sort_key uniqueDepartures_times_distinct)
  have sx: "sorted ?xs" by (rule sorted_sort_key)
  have setx: "set ?xs = set (spec_timestamps ds)"
    using uniqueDepartures_times_set [of ds] by (simp add: spec_timestamps_def)
  have ds: "distinct (spec_timestamps ds)" by (simp add: spec_timestamps_def)
  have len: "length ?S = length (spec_timestamps ds)"
    using length_distinct_set [OF dx ds setx] by simp
  have sd: "sortedDepartures mx ds = take ?k ?S"
    unfolding sortedDepartures_def slice0_count len ..
  from f have "d \<in> set ds" "dd_time d = t" using find_Some_props by fastforce+
  then have tin: "t \<in> set ?xs" unfolding setx by (auto simp: spec_timestamps_def)
  have "t \<in> set (take ?k ?xs) \<longleftrightarrow> length (filter (\<lambda>y. y < t) ?xs) < ?k"
    using sx dx tin by (rule take_sorted_distinct_mem)
  also have "length (filter (\<lambda>y. y < t) ?xs) = length (filter (\<lambda>y. y < t) (spec_timestamps ds))"
    using dx ds setx by (rule length_filter_distinct_set)
  finally have mem: "t \<in> dd_time ` set (sortedDepartures mx ds) \<longleftrightarrow>
      length (filter (\<lambda>y. y < t) (spec_timestamps ds)) < ?k"
    unfolding sd by (simp add: take_map)
  show ?thesis
  proof (cases "length (filter (\<lambda>y. y < t) (spec_timestamps ds)) < ?k")
    case True
    with mem have "filter (\<lambda>x. dd_time x = t) (sortedDepartures mx ds) \<noteq> []"
      by (auto simp: filter_empty_conv)
    with sortedDepartures_at_most_one [OF f, of mx] True show ?thesis by auto
  next
    case False
    with mem have "filter (\<lambda>x. dd_time x = t) (sortedDepartures mx ds) = []"
      by (auto simp: filter_empty_conv)
    with False show ?thesis by simp
  qed
qed

lemma departures_of_route:
  assumes g: "Map_get (collectDepartures svc z now sid rf) rid = Some ds"
  shows "(Map_get (routes svc) rid = None \<longrightarrow>
            filter (\<lambda>b. bd_routeId b = rid) (getScheduledDepartures svc z now sid rf mx) = []) \<and>
         (Map_get (routes svc) rid \<noteq> None \<longrightarrow>
            (\<exists>b. filter (\<lambda>b. bd_routeId b = rid) (getScheduledDepartures svc z now sid rf mx) = [b] \<and>
                 departureTimes b = map (departureTimeWithHeadsign svc now) (sortedDepartures mx ds)))"
proof (intro conjI impI)
  let ?groups = "collectDepartures svc z now sid rf"
  let ?res = "getScheduledDepartures svc z now sid rf mx"
  have ids: "map bd_routeId ?res = filter (\<lambda>rid. Map_get (routes svc) rid \<noteq> None) (map fst ?groups)"
    by (simp add: getScheduledDepartures_def departureGroup_ids)
  have dist: "distinct (map bd_routeId ?res)"
    unfolding ids by (rule distinct_filter) (rule collectDepartures_distinct)
  {
    assume "Map_get (routes svc) rid = None"
    then have "rid \<notin> set (map bd_routeId ?res)" unfolding ids by simp
    then show "filter (\<lambda>b. bd_routeId b = rid) ?res = []"
      by (auto simp: filter_empty_conv)
  }
  {
    assume known: "Map_get (routes svc) rid \<noteq> None"
    have "rid \<in> set (map fst ?groups)" unfolding Map_get_keys using g by simp
    with known have "rid \<in> set (map bd_routeId ?res)" unfolding ids by simp
    then obtain b where b: "b \<in> set ?res" "bd_routeId b = rid" by auto
    have one: "filter (\<lambda>y. bd_routeId y = rid) ?res = [b]"
      using filter_key_distinct [OF dist b(1)] b(2) by simp
    have "b \<in> set (foldl (departureGroup svc sid now mx) [] ?groups)"
      using b(1) by (simp add: getScheduledDepartures_def)
    from departureGroup_fold [OF this]
    obtain g' where g': "(bd_routeId b, g') \<in> set ?groups"
        "departureTimes b = map (departureTimeWithHeadsign svc now) (sortedDepartures mx g')"
      by auto
    have "Map_get ?groups (bd_routeId b) = Some g'"
      using collectDepartures_distinct g'(1) by (rule Map_get_distinct)
    with g b(2) have "g' = ds" by simp
    with one g'(2)
    show "\<exists>b. filter (\<lambda>b. bd_routeId b = rid) ?res = [b] \<and>
                 departureTimes b = map (departureTimeWithHeadsign svc now) (sortedDepartures mx ds)"
      by blast
  }
qed

lemma filter_departureTimes:
  "filter (\<lambda>x. dt_time x = t) (map (departureTimeWithHeadsign svc now) xs) =
     map (departureTimeWithHeadsign svc now) (filter (\<lambda>x. dd_time x = t) xs)"
  by (induction xs) (simp_all add: departureTimeWithHeadsign_def Let_def)

lemma sortedDepartures_times:
  "map dd_time (sortedDepartures mx ds) =
     take (spec_sliceCount mx (length (spec_timestamps ds))) (sort (spec_timestamps ds))"
proof -
  let ?U = "Map_values (uniqueDepartures ds)"
  let ?S = "sort_key dd_time ?U"
  let ?xs = "map dd_time ?S"
  have dx: "distinct ?xs" by (simp only: distinct_map_sort_key uniqueDepartures_times_distinct)
  have sx: "sorted ?xs" by (rule sorted_sort_key)
  have setx: "set ?xs = set (spec_timestamps ds)"
    using uniqueDepartures_times_set [of ds] by (simp add: spec_timestamps_def)
  have ds: "distinct (spec_timestamps ds)" by (simp add: spec_timestamps_def)
  have len: "length ?S = length (spec_timestamps ds)"
    using length_distinct_set [OF dx ds setx] by simp
  have "?xs = sort (spec_timestamps ds)"
  proof (rule sorted_distinct_set_unique)
    show "sorted ?xs" by (rule sx)
    show "distinct ?xs" by (rule dx)
    show "sorted (sort (spec_timestamps ds))" by simp
    show "distinct (sort (spec_timestamps ds))" using ds by simp
    show "set ?xs = set (sort (spec_timestamps ds))" using setx by simp
  qed
  then have "take (spec_sliceCount mx (length (spec_timestamps ds))) ?xs =
      take (spec_sliceCount mx (length (spec_timestamps ds))) (sort (spec_timestamps ds))"
    by (rule arg_cong)
  then show ?thesis
    unfolding sortedDepartures_def slice0_count len take_map .
qed

lemma sortedDepartures_first:
  "x \<in> set (sortedDepartures mx ds) \<Longrightarrow> find (\<lambda>y. dd_time y = dd_time x) ds = Some x"
  using sortedDepartures_subset [of mx ds] uniqueDepartures_first [of x ds] by blast

subsection \<open>The timestamp of the specification\<close>







subsection \<open>Evaluating the scheduled departures\<close>

lemmas eval_defs = getScheduledDepartures_def collectDepartures_def processTrip_def
  parseGtfsTime_def Number_str_def trim_def isWhiteSpace_def parseUnsignedDecimal_def
  parseExponent_def scale10_def decimalValue_def isDigit_def digitVal_def field_def
  Date_localDay_def Date_setDateNext_def Date_setHours_def MakeTime_def
  ToIntegerOrInfinity_def TimeClip_def UTC_def LocalTime_def Day_def TimeWithinDay_def
  fixedOffset_def pacific2023_def
  Map_push_def Map_has_def Map_get_def Map_set_def Map_values_def Let_def
  departureGroup_def sortedDepartures_def uniqueDepartures_def slice0_def
  departureTimeWithHeadsign_def headsignOf_def getDepartureStatus_def int_toString_def
  nat_digits.simps digit_chr_def

lemmas spec_eval = spec_keptDepartures_def spec_tripDeparture_def spec_passesFilter_def
  spec_timestamps_def spec_sliceCount_def spec_gtfsTime_def spec_instant_def
  spec_localDayStart_def

text \<open>
  Some numbers and times as the code reads them: a field that is not a number, or a
  missing field, gives no time; the hour that is repeated when the clocks go back is read
  as its first occurrence.
\<close>

lemma Number_str_examples:
  "Number_str ''08'' = Finite 8"
  "Number_str '' 12 '' = Finite 12"
  "Number_str [] = Finite 0"
  "Number_str ''-5'' = Finite (- 5)"
  "Number_str ''+7'' = Finite 7"
  "Number_str ''1e3'' = Finite 1000"
  "Number_str ''2.5'' = Finite (5 / 2)"
  "Number_str ''0x1A'' = Finite 26"
  "Number_str ''0b101'' = Finite 5"
  "Number_str ''8a'' = NaN"
  "Number_str ''-0x10'' = NaN"
  "Number_str ''Infinity'' = Infinity True"
  "Number_str ''-Infinity'' = Infinity False"
  by (simp_all add: Number_str_def trim_def isWhiteSpace_def parseUnsignedDecimal_def
      parseExponent_def scale10_def decimalValue_def isDigit_def digitVal_def
      radixValue_def radixDigit_def Let_def)

lemma parseGtfsTime_examples:
  "parseGtfsTime (fixedOffset 0) 0 ''23:59:59'' = Some 86399"
  "parseGtfsTime (fixedOffset 0) 0 ''24:00:00'' = Some 86400"
  "parseGtfsTime (fixedOffset (- 28800)) 1700000000 ''25:15:00'' = Some 1700039700"
  "parseGtfsTime (fixedOffset 0) 0 ''8:30'' = None"
  "parseGtfsTime (fixedOffset 0) 0 ''soon'' = None"
  "parseGtfsTime (fixedOffset 0) 0 ''99999999999:00:00'' = None"
  "parseGtfsTime pacific2023 1699169400 ''01:30:00'' = Some 1699173000"
  "parseGtfsTime pacific2023 1699169400 ''02:30:00'' = Some 1699180200"
  by (simp_all add: eval_defs)

text \<open>
  C3 as stated fails when the group is cut to \<open>maxDepartures\<close>: trips B and C of route 1
  both leave stop S100 at 09:00:00 (timestamp 32400), trip A leaves at 08:00:00, and with
  \<open>maxDepartures = 1\<close> the result holds the departure at 28800 only, so no entry with
  the shared timestamp appears in it. When route 1 is not in the route index, the result
  is empty.
\<close>

theorem dedup_truncated_counterexample:
  "collectDepartures
     \<lparr> routes = [(''1'', \<lparr> route_routeId = ''1'', shortName = ''1'', longName = ''University'',
                     routeColor = ''000000'', routeTextColor = ''FFFFFF'' \<rparr>)],
       trips = [(''A'', \<lparr> trip_tripId = ''A'', trip_routeId = ''1'', tripHeadsign = ''UVic'' \<rparr>),
                (''B'', \<lparr> trip_tripId = ''B'', trip_routeId = ''1'', tripHeadsign = ''UVic'' \<rparr>),
                (''C'', \<lparr> trip_tripId = ''C'', trip_routeId = ''1'', tripHeadsign = ''Downtown'' \<rparr>)],
       stops = [],
       stopTimes =
         [(''A'', [\<lparr> st_tripId = ''A'', arrivalTime = ''08:00:00'', departureTime = ''08:00:00'',
                st_stopId = ''S100'', stopSequence = 1 \<rparr>]),
          (''B'', [\<lparr> st_tripId = ''B'', arrivalTime = ''09:00:00'', departureTime = ''09:00:00'',
                st_stopId = ''S100'', stopSequence = 1 \<rparr>]),
          (''C'', [\<lparr> st_tripId = ''C'', arrivalTime = ''09:00:00'', departureTime = ''09:00:00'',
                st_stopId = ''S100'', stopSequence = 1 \<rparr>])] \<rparr>
     (fixedOffset 0) 0 ''S100'' None
   = [(''1'', [\<lparr> dd_time = 28800, dd_tripId = ''A'' \<rparr>,
              \<lparr> dd_time = 32400, dd_tripId = ''B'' \<rparr>,
              \<lparr> dd_time = 32400, dd_tripId = ''C'' \<rparr>])] \<and>
   map (\<lambda>b. map dt_time (departureTimes b))
     (getScheduledDepartures
       \<lparr> routes = [(''1'', \<lparr> route_routeId = ''1'', shortName = ''1'', longName = ''University'',
                     routeColor = ''000000'', routeTextColor = ''FFFFFF'' \<rparr>)],
       trips = [(''A'', \<lparr> trip_tripId = ''A'', trip_routeId = ''1'', tripHeadsign = ''UVic'' \<rparr>),
                (''B'', \<lparr> trip_tripId = ''B'', trip_routeId = ''1'', tripHeadsign = ''UVic'' \<rparr>),
                (''C'', \<lparr> trip_tripId = ''C'', trip_routeId = ''1'', tripHeadsign = ''Downtown'' \<rparr>)],
       stops = [],
       stopTimes =
         [(''A'', [\<lparr> st_tripId = ''A'', arrivalTime = ''08:00:00'', departureTime = ''08:00:00'',
                st_stopId = ''S100'', stopSequence = 1 \<rparr>]),
          (''B'', [\<lparr> st_tripId = ''B'', arrivalTime = ''09:00:00'', departureTime = ''09:00:00'',
                st_stopId = ''S100'', stopSequence = 1 \<rparr>]),
          (''C'', [\<lparr> st_tripId = ''C'', arrivalTime = ''09:00:00'', departureTime = ''09:00:00'',
                st_stopId = ''S100'', stopSequence = 1 \<rparr>])] \<rparr>
       (fixedOffset 0) 0 ''S100'' None 1)
   = [[28800]] \<and>
   getScheduledDepartures
       (\<lparr> routes = [(''1'', \<lparr> route_routeId = ''1'', shortName = ''1'', longName = ''University'',
                     routeColor = ''000000'', routeTextColor = ''FFFFFF'' \<rparr>)],
       trips = [(''A'', \<lparr> trip_tripId = ''A'', trip_routeId = ''1'', tripHeadsign = ''UVic'' \<rparr>),
                (''B'', \<lparr> trip_tripId = ''B'', trip_routeId = ''1'', tripHeadsign = ''UVic'' \<rparr>),
                (''C'', \<lparr> trip_tripId = ''C'', trip_routeId = ''1'', tripHeadsign = ''Downtown'' \<rparr>)],
       stops = [],
       stopTimes =
         [(''A'', [\<lparr> st_tripId = ''A'', arrivalTime = ''08:00:00'', departureTime = ''08:00:00'',
                st_stopId = ''S100'', stopSequence = 1 \<rparr>]),
          (''B'', [\<lparr> st_tripId = ''B'', arrivalTime = ''09:00:00'', departureTime = ''09:00:00'',
                st_stopId = ''S100'', stopSequence = 1 \<rparr>]),
          (''C'', [\<lparr> st_tripId = ''C'', arrivalTime = ''09:00:00'', departureTime = ''09:00:00'',
                st_stopId = ''S100'', stopSequence = 1 \<rparr>])] \<rparr> \<lparr> routes := [] \<rparr>)
       (fixedOffset 0) 0 ''S100'' None 5
   = []"
  by (simp add: eval_defs)

text \<open>
  C3, amended. In the group that \<open>collectDepartures\<close> builds for a route, let \<open>d\<close> be
  the first departure encountered with the timestamp \<open>t\<close>. Then \<open>d\<close> is the one entry
  with timestamp \<open>t\<close> that is left after the deduplication. The timestamps of the
  sorted and truncated list are the first \<open>k\<close> of the distinct timestamps of the group
  in ascending order, where \<open>k\<close> is the number of entries that
  \<open>slice(0, maxDepartures)\<close> leaves of them, and each of its entries is the first
  encountered with its timestamp. When the route is not in the route index, the result
  has no entry for the route. When it is, the result has exactly one entry for the route,
  whose departure times are that list; among them exactly one has the timestamp \<open>t\<close>,
  the one made from \<open>d\<close>, when fewer than \<open>k\<close> distinct timestamps of the group are
  earlier than \<open>t\<close>, and none has it otherwise.
\<close>

theorem dedup_by_timestamp:
  assumes "Map_get (collectDepartures svc z now sid rf) rid = Some ds"
    and "find (\<lambda>x. dd_time x = t) ds = Some d"
  shows "filter (\<lambda>x. dd_time x = t) (Map_values (uniqueDepartures ds)) = [d] \<and>
     map dd_time (sortedDepartures mx ds) =
       take (spec_sliceCount mx (length (spec_timestamps ds))) (sort (spec_timestamps ds)) \<and>
     (\<forall>x \<in> set (sortedDepartures mx ds). find (\<lambda>y. dd_time y = dd_time x) ds = Some x) \<and>
     (Map_get (routes svc) rid = None \<longrightarrow>
        filter (\<lambda>b. bd_routeId b = rid) (getScheduledDepartures svc z now sid rf mx) = []) \<and>
     (Map_get (routes svc) rid \<noteq> None \<longrightarrow>
        (\<exists>b. filter (\<lambda>b. bd_routeId b = rid) (getScheduledDepartures svc z now sid rf mx) = [b] \<and>
             departureTimes b = map (departureTimeWithHeadsign svc now) (sortedDepartures mx ds) \<and>
             filter (\<lambda>x. dt_time x = t) (departureTimes b) =
               (if length (filter (\<lambda>t'. t' < t) (spec_timestamps ds))
                     < spec_sliceCount mx (length (spec_timestamps ds))
                then [departureTimeWithHeadsign svc now d] else [])))"
proof (intro conjI impI ballI)
  show "filter (\<lambda>x. dd_time x = t) (Map_values (uniqueDepartures ds)) = [d]"
    using assms(2) by (rule uniqueDepartures_exactly_one)
next
  show "map dd_time (sortedDepartures mx ds) =
       take (spec_sliceCount mx (length (spec_timestamps ds))) (sort (spec_timestamps ds))"
    by (rule sortedDepartures_times)
next
  fix x assume "x \<in> set (sortedDepartures mx ds)"
  then show "find (\<lambda>y. dd_time y = dd_time x) ds = Some x" by (rule sortedDepartures_first)
next
  assume "Map_get (routes svc) rid = None"
  with departures_of_route [OF assms(1), of mx]
  show "filter (\<lambda>b. bd_routeId b = rid) (getScheduledDepartures svc z now sid rf mx) = []"
    by blast
next
  assume "Map_get (routes svc) rid \<noteq> None"
  with departures_of_route [OF assms(1), of mx]
  obtain b where b: "filter (\<lambda>b. bd_routeId b = rid) (getScheduledDepartures svc z now sid rf mx) = [b]"
      "departureTimes b = map (departureTimeWithHeadsign svc now) (sortedDepartures mx ds)"
    by blast
  have "filter (\<lambda>x. dt_time x = t) (departureTimes b) =
      map (departureTimeWithHeadsign svc now) (filter (\<lambda>x. dd_time x = t) (sortedDepartures mx ds))"
    unfolding b(2) by (rule filter_departureTimes)
  also have "\<dots> = (if length (filter (\<lambda>t'. t' < t) (spec_timestamps ds))
                     < spec_sliceCount mx (length (spec_timestamps ds))
                then [departureTimeWithHeadsign svc now d] else [])"
    unfolding sortedDepartures_filter_exact [OF assms(2)] by simp
  finally show "\<exists>b. filter (\<lambda>b. bd_routeId b = rid) (getScheduledDepartures svc z now sid rf mx) = [b] \<and>
             departureTimes b = map (departureTimeWithHeadsign svc now) (sortedDepartures mx ds) \<and>
             filter (\<lambda>x. dt_time x = t) (departureTimes b) =
               (if length (filter (\<lambda>t'. t' < t) (spec_timestamps ds))
                     < spec_sliceCount mx (length (spec_timestamps ds))
                then [departureTimeWithHeadsign svc now d] else [])"
    using b by blast
qed

text \<open>
  Trips A and B of route 1 leave stop S100 at 08:00:00, trip C at 09:00:00. With
  \<open>maxDepartures = 1\<close> the one entry of the result is the departure of A at 28800,
  the first encountered (its headsign is that of A): no distinct timestamp of the group
  is earlier than 28800, and \<open>slice\<close> leaves one.
\<close>

theorem dedup_by_timestamp_witness:
  "Map_get (collectDepartures
     \<lparr> routes = [(''1'', \<lparr> route_routeId = ''1'', shortName = ''1'', longName = ''University'',
                     routeColor = ''000000'', routeTextColor = ''FFFFFF'' \<rparr>)],
       trips = [(''A'', \<lparr> trip_tripId = ''A'', trip_routeId = ''1'', tripHeadsign = ''UVic'' \<rparr>),
                (''B'', \<lparr> trip_tripId = ''B'', trip_routeId = ''1'', tripHeadsign = ''Downtown'' \<rparr>),
                (''C'', \<lparr> trip_tripId = ''C'', trip_routeId = ''1'', tripHeadsign = ''Downtown'' \<rparr>)],
       stops = [],
       stopTimes =
         [(''A'', [\<lparr> st_tripId = ''A'', arrivalTime = ''08:00:00'', departureTime = ''08:00:00'',
                st_stopId = ''S100'', stopSequence = 1 \<rparr>]),
          (''B'', [\<lparr> st_tripId = ''B'', arrivalTime = ''08:00:00'', departureTime = ''08:00:00'',
                st_stopId = ''S100'', stopSequence = 1 \<rparr>]),
          (''C'', [\<lparr> st_tripId = ''C'', arrivalTime = ''09:00:00'', departureTime = ''09:00:00'',
                st_stopId = ''S100'', stopSequence = 1 \<rparr>])] \<rparr>
     (fixedOffset 0) 0 ''S100'' None) ''1''
   = Some [\<lparr> dd_time = 28800, dd_tripId = ''A'' \<rparr>,
              \<lparr> dd_time = 28800, dd_tripId = ''B'' \<rparr>,
              \<lparr> dd_time = 32400, dd_tripId = ''C'' \<rparr>] \<and>
   find (\<lambda>x. dd_time x = 28800) [\<lparr> dd_time = 28800, dd_tripId = ''A'' \<rparr>,
              \<lparr> dd_time = 28800, dd_tripId = ''B'' \<rparr>,
              \<lparr> dd_time = 32400, dd_tripId = ''C'' \<rparr>] = Some \<lparr> dd_time = 28800, dd_tripId = ''A'' \<rparr> \<and>
   spec_timestamps [\<lparr> dd_time = 28800, dd_tripId = ''A'' \<rparr>,
              \<lparr> dd_time = 28800, dd_tripId = ''B'' \<rparr>,
              \<lparr> dd_time = 32400, dd_tripId = ''C'' \<rparr>] = [28800, 32400] \<and>
   spec_sliceCount 1 2 = 1 \<and>
   map (\<lambda>b. (bd_routeId b, map (\<lambda>x. (dt_time x, dt_headsign x)) (departureTimes b)))
     (getScheduledDepartures
       \<lparr> routes = [(''1'', \<lparr> route_routeId = ''1'', shortName = ''1'', longName = ''University'',
                     routeColor = ''000000'', routeTextColor = ''FFFFFF'' \<rparr>)],
       trips = [(''A'', \<lparr> trip_tripId = ''A'', trip_routeId = ''1'', tripHeadsign = ''UVic'' \<rparr>),
                (''B'', \<lparr> trip_tripId = ''B'', trip_routeId = ''1'', tripHeadsign = ''Downtown'' \<rparr>),
                (''C'', \<lparr> trip_tripId = ''C'', trip_routeId = ''1'', tripHeadsign = ''Downtown'' \<rparr>)],
       stops = [],
       stopTimes =
         [(''A'', [\<lparr> st_tripId = ''A'', arrivalTime = ''08:00:00'', departureTime = ''08:00:00'',
                st_stopId = ''S100'', stopSequence = 1 \<rparr>]),
          (''B'', [\<lparr> st_tripId = ''B'', arrivalTime = ''08:00:00'', departureTime = ''08:00:00'',
                st_stopId = ''S100'', stopSequence = 1 \<rparr>]),
          (''C'', [\<lparr> st_tripId = ''C'', arrivalTime = ''09:00:00'', departureTime = ''09:00:00'',
                st_stopId = ''S100'', stopSequence = 1 \<rparr>])] \<rparr>
       (fixedOffset 0) 0 ''S100'' None 1)
   = [(''1'', [(28800, ''UVic'')])]"
  using dedup_by_timestamp [where t = 28800
      and ds = "[\<lparr> dd_time = 28800, dd_tripId = ''A'' \<rparr>,
              \<lparr> dd_time = 28800, dd_tripId = ''B'' \<rparr>,
              \<lparr> dd_time = 32400, dd_tripId = ''C'' \<rparr>]"
      and d = "\<lparr> dd_time = 28800, dd_tripId = ''A'' \<rparr>" and mx = 1 and rid = "''1''"
      and svc = "\<lparr> routes = [(''1'', \<lparr> route_routeId = ''1'', shortName = ''1'', longName = ''University'',
                     routeColor = ''000000'', routeTextColor = ''FFFFFF'' \<rparr>)],
       trips = [(''A'', \<lparr> trip_tripId = ''A'', trip_routeId = ''1'', tripHeadsign = ''UVic'' \<rparr>),
                (''B'', \<lparr> trip_tripId = ''B'', trip_routeId = ''1'', tripHeadsign = ''Downtown'' \<rparr>),
                (''C'', \<lparr> trip_tripId = ''C'', trip_routeId = ''1'', tripHeadsign = ''Downtown'' \<rparr>)],
       stops = [],
       stopTimes =
         [(''A'', [\<lparr> st_tripId = ''A'', arrivalTime = ''08:00:00'', departureTime = ''08:00:00'',
                st_stopId = ''S100'', stopSequence = 1 \<rparr>]),
          (''B'', [\<lparr> st_tripId = ''B'', arrivalTime = ''08:00:00'', departureTime = ''08:00:00'',
                st_stopId = ''S100'', stopSequence = 1 \<rparr>]),
          (''C'', [\<lparr> st_tripId = ''C'', arrivalTime = ''09:00:00'', departureTime = ''09:00:00'',
                st_stopId = ''S100'', stopSequence = 1 \<rparr>])] \<rparr>"
      and z = "fixedOffset 0" and now = 0 and sid = "''S100''" and rf = None]
  by (simp add: eval_defs spec_eval)

subsection \<open>The departure window\<close>




subsection \<open>One stop time per trip\<close>

text \<open>
  C10. With the stop times as \<open>loadStopTimes\<close> leaves them, the entry that
  \<open>getScheduledDepartures\<close> finds for a trip at the requested stop is the first one in
  the order of \<open>stopSequence\<close>: no entry of the trip for that stop has a smaller
  sequence number, and the loop body does what it would do if the trip had this entry
  alone. Cutting every trip down to its first entry for the stop does not change the
  result of the call, so a later visit of the stop by the same trip is never returned.
  Each trip contributes at most one candidate departure to the collected departures.
\<close>

theorem first_visit_only:
  assumes "stopTimes svc = loadStopTimes rows"
  shows "(\<forall>e \<in> set (stopTimes svc). \<forall>st.
            find (\<lambda>s. st_stopId s = sid) (snd e) = Some st \<longrightarrow>
              (\<forall>st' \<in> set (snd e). st_stopId st' = sid \<longrightarrow> stopSequence st \<le> stopSequence st') \<and>
              processTrip svc z now sid rf acc e = processTrip svc z now sid rf acc (fst e, [st])) \<and>
         getScheduledDepartures
           (svc \<lparr> stopTimes := map (\<lambda>(tid, sts).
              (tid, case find (\<lambda>s. st_stopId s = sid) sts of None \<Rightarrow> [] | Some st \<Rightarrow> [st])) (stopTimes svc) \<rparr>)
           z now sid rf mx
           = getScheduledDepartures svc z now sid rf mx \<and>
         (\<forall>tid. length (filter (\<lambda>d. dd_tripId d = tid)
                   (concat (map snd (collectDepartures svc z now sid rf)))) \<le> 1)"
proof (intro conjI ballI allI impI)
  fix e st st'
  assume e: "e \<in> set (stopTimes svc)" and f: "find (\<lambda>s. st_stopId s = sid) (snd e) = Some st"
  have srt: "sorted (map stopSequence (snd e))"
    using e assms loadStopTimes_sorted [of "fst e" "snd e" rows] by simp
  show "processTrip svc z now sid rf acc e = processTrip svc z now sid rf acc (fst e, [st])"
    using processTrip_first_visit [of svc z now sid rf acc "fst e" "snd e"] f by simp
  assume "st' \<in> set (snd e)" "st_stopId st' = sid"
  with srt f show "stopSequence st \<le> stopSequence st'"
    using sorted_find_least [of stopSequence "snd e" "\<lambda>s. st_stopId s = sid" st st'] by simp
next
  show "getScheduledDepartures
           (svc \<lparr> stopTimes := map (\<lambda>(tid, sts).
              (tid, case find (\<lambda>s. st_stopId s = sid) sts of None \<Rightarrow> [] | Some st \<Rightarrow> [st])) (stopTimes svc) \<rparr>)
           z now sid rf mx
           = getScheduledDepartures svc z now sid rf mx"
    by (rule getScheduledDepartures_first_visit)
next
  fix tid
  have "distinct (map fst (stopTimes svc))" using assms loadStopTimes_distinct by simp
  then show "length (filter (\<lambda>d. dd_tripId d = tid)
                   (concat (map snd (collectDepartures svc z now sid rf)))) \<le> 1"
    by (rule collectDepartures_one_per_trip)
qed

text \<open>
  A loop trip visits S1 with sequence numbers 1 (08:00:00) and 3 (08:20:00), loaded out
  of order. At midnight only 08:00:00 is returned; at 08:03:20 the first visit has
  passed and nothing is returned, although the later visit lies ahead.
\<close>

theorem first_visit_only_witness:
  "loadStopTimes
     [\<lparr> st_tripId = ''L'', arrivalTime = ''08:20:00'', departureTime = ''08:20:00'',
        st_stopId = ''S1'', stopSequence = 3 \<rparr>,
      \<lparr> st_tripId = ''L'', arrivalTime = ''08:00:00'', departureTime = ''08:00:00'',
        st_stopId = ''S1'', stopSequence = 1 \<rparr>,
      \<lparr> st_tripId = ''L'', arrivalTime = ''08:10:00'', departureTime = ''08:10:00'',
        st_stopId = ''S2'', stopSequence = 2 \<rparr>]
   = [(''L'',
       [\<lparr> st_tripId = ''L'', arrivalTime = ''08:00:00'', departureTime = ''08:00:00'',
          st_stopId = ''S1'', stopSequence = 1 \<rparr>,
        \<lparr> st_tripId = ''L'', arrivalTime = ''08:10:00'', departureTime = ''08:10:00'',
          st_stopId = ''S2'', stopSequence = 2 \<rparr>,
        \<lparr> st_tripId = ''L'', arrivalTime = ''08:20:00'', departureTime = ''08:20:00'',
          st_stopId = ''S1'', stopSequence = 3 \<rparr>])] \<and>
   map (\<lambda>b. map dt_time (departureTimes b))
     (getScheduledDepartures
       \<lparr> routes = [(''1'', \<lparr> route_routeId = ''1'', shortName = ''1'', longName = ''Loop'',
                           routeColor = ''000000'', routeTextColor = ''FFFFFF'' \<rparr>)],
         trips = [(''L'', \<lparr> trip_tripId = ''L'', trip_routeId = ''1'', tripHeadsign = ''Loop'' \<rparr>)],
         stops = [],
         stopTimes = [(''L'',
           [\<lparr> st_tripId = ''L'', arrivalTime = ''08:00:00'', departureTime = ''08:00:00'',
              st_stopId = ''S1'', stopSequence = 1 \<rparr>,
            \<lparr> st_tripId = ''L'', arrivalTime = ''08:10:00'', departureTime = ''08:10:00'',
              st_stopId = ''S2'', stopSequence = 2 \<rparr>,
            \<lparr> st_tripId = ''L'', arrivalTime = ''08:20:00'', departureTime = ''08:20:00'',
              st_stopId = ''S1'', stopSequence = 3 \<rparr>])] \<rparr>
       (fixedOffset 0) 0 ''S1'' None 5) = [[28800]] \<and>
   getScheduledDepartures
       \<lparr> routes = [(''1'', \<lparr> route_routeId = ''1'', shortName = ''1'', longName = ''Loop'',
                           routeColor = ''000000'', routeTextColor = ''FFFFFF'' \<rparr>)],
         trips = [(''L'', \<lparr> trip_tripId = ''L'', trip_routeId = ''1'', tripHeadsign = ''Loop'' \<rparr>)],
         stops = [],
         stopTimes = [(''L'',
           [\<lparr> st_tripId = ''L'', arrivalTime = ''08:00:00'', departureTime = ''08:00:00'',
              st_stopId = ''S1'', stopSequence = 1 \<rparr>,
            \<lparr> st_tripId = ''L'', arrivalTime = ''08:10:00'', departureTime = ''08:10:00'',
              st_stopId = ''S2'', stopSequence = 2 \<rparr>,
            \<lparr> st_tripId = ''L'', arrivalTime = ''08:20:00'', departureTime = ''08:20:00'',
              st_stopId = ''S1'', stopSequence = 3 \<rparr>])] \<rparr>
       (fixedOffset 0) 29000 ''S1'' None 5 = []"
  using first_visit_only [where svc = "\<lparr> routes = [(''1'', \<lparr> route_routeId = ''1'', shortName = ''1'', longName = ''Loop'',
                           routeColor = ''000000'', routeTextColor = ''FFFFFF'' \<rparr>)],
         trips = [(''L'', \<lparr> trip_tripId = ''L'', trip_routeId = ''1'', tripHeadsign = ''Loop'' \<rparr>)],
         stops = [],
         stopTimes = [(''L'',
           [\<lparr> st_tripId = ''L'', arrivalTime = ''08:00:00'', departureTime = ''08:00:00'',
              st_stopId = ''S1'', stopSequence = 1 \<rparr>,
            \<lparr> st_tripId = ''L'', arrivalTime = ''08:10:00'', departureTime = ''08:10:00'',
              st_stopId = ''S2'', stopSequence = 2 \<rparr>,
            \<lparr> st_tripId = ''L'', arrivalTime = ''08:20:00'', departureTime = ''08:20:00'',
              st_stopId = ''S1'', stopSequence = 3 \<rparr>])] \<rparr>"
      and rows = "[\<lparr> st_tripId = ''L'', arrivalTime = ''08:20:00'', departureTime = ''08:20:00'',
        st_stopId = ''S1'', stopSequence = 3 \<rparr>,
      \<lparr> st_tripId = ''L'', arrivalTime = ''08:00:00'', departureTime = ''08:00:00'',
        st_stopId = ''S1'', stopSequence = 1 \<rparr>,
      \<lparr> st_tripId = ''L'', arrivalTime = ''08:10:00'', departureTime = ''08:10:00'',
        st_stopId = ''S2'', stopSequence = 2 \<rparr>]"
      and sid = "''S1''" and z = "fixedOffset 0" and now = 29000 and rf = None and mx = 5 and acc = "[]"]
  by (simp add: eval_defs loadStopTimes_def sortStopTimes_def)

subsection \<open>The haversine distance\<close>

lemma sin_half_squared: "(sin (x / 2))\<^sup>2 = (1 - cos x) / (2::real)"
  using cos_double_sin [of "x / 2"] by simp

lemma hav_bounds:
  fixes p1 p2 l :: real
  defines "a \<equiv> (sin ((p2 - p1) / 2))\<^sup>2 + cos p1 * cos p2 * (sin (l / 2))\<^sup>2"
  shows "0 \<le> a \<and> a \<le> 1"
proof -
  let ?s1 = "(sin ((p2 - p1) / 2))\<^sup>2"
  let ?s2 = "(sin (l / 2))\<^sup>2"
  let ?c = "cos p1 * cos p2"
  have s1: "0 \<le> ?s1" "?s1 \<le> 1" by (simp_all add: abs_square_le_1 abs_sin_le_one)
  have s2: "0 \<le> ?s2" "?s2 \<le> 1" by (simp_all add: abs_square_le_1 abs_sin_le_one)
  have "?s1 + ?c = (1 - cos (p2 - p1)) / 2 + ?c" by (simp only: sin_half_squared)
  also have "\<dots> = (1 + (cos p1 * cos p2 - sin p1 * sin p2)) / 2"
    by (simp add: cos_diff field_simps)
  also have "\<dots> = (1 + cos (p1 + p2)) / 2" by (simp add: cos_add)
  finally have e: "?s1 + ?c = (1 + cos (p1 + p2)) / 2" .
  have "0 \<le> 1 + cos (p1 + p2)" using cos_ge_minus_one [of "p1 + p2"] by linarith
  then have e0: "0 \<le> ?s1 + ?c" unfolding e by simp
  have "1 + cos (p1 + p2) \<le> 2" using cos_le_one [of "p1 + p2"] by linarith
  then have e1: "?s1 + ?c \<le> 1" unfolding e by simp
  show ?thesis
  proof (cases "0 \<le> ?c")
    case True
    have "0 \<le> ?c * ?s2" using True s2(1) by (rule mult_nonneg_nonneg)
    moreover have "?c * ?s2 \<le> ?c * 1" using s2(2) True by (rule mult_left_mono)
    ultimately show ?thesis unfolding a_def using s1 e1 by linarith
  next
    case False
    then have neg: "?c \<le> 0" by simp
    have "?c * ?s2 \<le> 0" using neg s2(1) by (rule mult_nonpos_nonneg)
    moreover have "?c * 1 \<le> ?c * ?s2" using s2(2) neg by (rule mult_left_mono_neg)
    ultimately show ?thesis unfolding a_def using s1 e0 by linarith
  qed
qed

lemma atan2_arcsin:
  assumes "0 \<le> a" "a \<le> 1"
  shows "atan2 (sqrt a) (sqrt (1 - a)) = arcsin (sqrt a)"
proof (cases "a = 1")
  case True
  then show ?thesis by (simp add: atan2_def)
next
  case False
  with assms have lt: "a < 1" by simp
  then have pos: "0 < sqrt (1 - a)" by simp
  have x: "- 1 < sqrt a" "sqrt a < 1"
    using assms lt by (simp_all add: less_le_trans [of "-1" 0] real_sqrt_lt_1_iff)
  have "arcsin (sqrt a) = arctan (sqrt a / sqrt (1 - (sqrt a)\<^sup>2))"
    using x by (rule arcsin_arctan)
  also have "(sqrt a)\<^sup>2 = a" using assms by simp
  finally show ?thesis using pos by (simp add: atan2_def)
qed

lemma calculateDistance_haversine:
  "calculateDistance lat1 lon1 lat2 lon2 =
     6371000 * (2 * arcsin (sqrt ((sin (toRadians (lat2 - lat1) / 2))\<^sup>2 +
        cos (toRadians lat1) * cos (toRadians lat2) * (sin (toRadians (lon2 - lon1) / 2))\<^sup>2)))"
proof -
  let ?a = "(sin (toRadians (lat2 - lat1) / 2))\<^sup>2 +
        cos (toRadians lat1) * cos (toRadians lat2) * (sin (toRadians (lon2 - lon1) / 2))\<^sup>2"
  have d: "toRadians (lat2 - lat1) = toRadians lat2 - toRadians lat1"
    by (simp add: toRadians_def left_diff_distrib)
  have b: "0 \<le> ?a \<and> ?a \<le> 1"
    unfolding d by (rule hav_bounds)
  have src: "sin (toRadians (lat2 - lat1) / 2) * sin (toRadians (lat2 - lat1) / 2) +
      cos (toRadians lat1) * cos (toRadians lat2) * sin (toRadians (lon2 - lon1) / 2) *
        sin (toRadians (lon2 - lon1) / 2) = ?a"
    by (simp add: power2_eq_square)
  have "calculateDistance lat1 lon1 lat2 lon2 = 6371000 * (2 * atan2 (sqrt ?a) (sqrt (1 - ?a)))"
    unfolding calculateDistance_def Let_def src ..
  also have "atan2 (sqrt ?a) (sqrt (1 - ?a)) = arcsin (sqrt ?a)"
    using b by (intro atan2_arcsin) simp_all
  finally show ?thesis .
qed

lemma calculateDistance_nonneg: "0 \<le> calculateDistance lat1 lon1 lat2 lon2"
proof -
  let ?a = "(sin (toRadians (lat2 - lat1) / 2))\<^sup>2 +
        cos (toRadians lat1) * cos (toRadians lat2) * (sin (toRadians (lon2 - lon1) / 2))\<^sup>2"
  have d: "toRadians (lat2 - lat1) = toRadians lat2 - toRadians lat1"
    by (simp add: toRadians_def left_diff_distrib)
  have b: "0 \<le> ?a \<and> ?a \<le> 1"
    unfolding d by (rule hav_bounds)
  then have "sqrt ?a \<in> {0..1}" by (simp add: real_sqrt_le_1_iff)
  then have "0 \<le> arcsin (sqrt ?a)" by (rule arcsin_nonneg)
  then show ?thesis unfolding calculateDistance_haversine by simp
qed

lemma calculateDistance_same: "calculateDistance lat lon lat lon = 0"
  by (simp add: calculateDistance_def toRadians_def atan2_def)

subsection \<open>Nearby stops\<close>

lemma scanStops_foldl:
  "foldl (\<lambda>nearbyStops (sid, stop).
              (let d = calculateDistance lat lon (stopLat stop) (stopLon stop)
               in if d \<le> r
                  then nearbyStops @ [\<lparr> ns_stop = stop, distance = Math_round d \<rparr>]
                  else nearbyStops))
       acc stps
   = acc @ map (\<lambda>s. \<lparr> ns_stop = s,
                       distance = Math_round (calculateDistance lat lon (stopLat s) (stopLon s)) \<rparr>)
             (filter (\<lambda>s. calculateDistance lat lon (stopLat s) (stopLon s) \<le> r) (map snd stps))"
  by (induction stps arbitrary: acc) (auto simp: Let_def split_def)

lemma scanStops_eq:
  "scanStops lat lon r stps =
     map (\<lambda>s. \<lparr> ns_stop = s,
                 distance = Math_round (calculateDistance lat lon (stopLat s) (stopLon s)) \<rparr>)
       (filter (\<lambda>s. calculateDistance lat lon (stopLat s) (stopLon s) \<le> r) (Map_values stps))"
  unfolding scanStops_def Map_values_def scanStops_foldl by simp

lemma Math_round_nearest: "\<bar>real_of_int (Math_round x) - x\<bar> \<le> 1 / 2"
proof -
  have "real_of_int \<lfloor>x + 1 / 2\<rfloor> \<le> x + 1 / 2" by (rule of_int_floor_le)
  moreover have "x + 1 / 2 < real_of_int \<lfloor>x + 1 / 2\<rfloor> + 1" by linarith
  ultimately show ?thesis unfolding Math_round_def by linarith
qed

lemma sort_key_const: "(\<And>x. x \<in> set xs \<Longrightarrow> f x = c) \<Longrightarrow> sort_key f xs = xs"
proof (induction xs)
  case Nil
  show ?case by simp
next
  case (Cons a xs)
  then have ih: "sort_key f xs = xs" by simp
  show ?case
  proof (cases xs)
    case Nil
    then show ?thesis by simp
  next
    case (Cons b ys)
    with Cons.prems have "f a = c" "f b = c" by simp_all
    with ih Cons show ?thesis by simp
  qed
qed

lemma calculateDistance_spec:
  "calculateDistance lat1 lon1 lat2 lon2 = spec_haversine lat1 lon1 lat2 lon2"
  unfolding calculateDistance_haversine spec_haversine_def toRadians_def by simp

lemma Math_round_bounds:
  "real_of_int (Math_round x) \<le> x + 1 / 2 \<and> x + 1 / 2 < real_of_int (Math_round x) + 1"
  unfolding Math_round_def by linarith

lemma spec_haversine_quarter:
  "spec_haversine 0 0 90 0 = 6371000 * pi / 2"
  "spec_haversine 0 0 0 90 = 6371000 * pi / 2"
proof -
  have "(sqrt 2 / 2)\<^sup>2 = (1 / 2 :: real)" by (simp add: power_divide)
  then have sq: "(sin (pi / 4))\<^sup>2 = 1 / 2" by (simp only: sin_45)
  have "sqrt (1 / 2) = sqrt 2 / 2" by (simp add: real_sqrt_divide real_div_sqrt)
  then have "arcsin (sqrt (1 / 2)) = arcsin (sin (pi / 4))" by (simp only: sin_45)
  also have "\<dots> = pi / 4" by (rule arcsin_sin) simp_all
  finally have a: "arcsin (sqrt (1 / 2)) = pi / 4" .
  show "spec_haversine 0 0 90 0 = 6371000 * pi / 2"
    unfolding spec_haversine_def by (simp add: sq a)
  show "spec_haversine 0 0 0 90 = 6371000 * pi / 2"
    unfolding spec_haversine_def by (simp add: sq a)
qed

text \<open>
  C5. \<open>calculateDistance\<close> is the haversine distance on a sphere of radius 6371000 m,
  with the degrees turned into radians by the factor \<open>pi / 180\<close>: a quarter of a
  meridian and a quarter of the equator are \<open>6371000 pi / 2\<close> metres.
  \<open>getNearbyStops\<close> returns
  the loaded stops whose haversine distance from the given point is at most the radius,
  each once and each with its distance rounded: the result is the stable sort, by the
  rounded distance, of those stops in the order of the stop index. The rounded distances
  of the result are non-decreasing. \<open>Math.round\<close> gives the integer \<open>n\<close> with
  \<open>n \<le> x + 1/2 < n + 1\<close>, which is within half a metre of \<open>x\<close>.
\<close>

theorem getNearbyStops_spec:
  "calculateDistance lat1 lon1 lat2 lon2 = spec_haversine lat1 lon1 lat2 lon2 \<and>
   calculateDistance 0 0 90 0 = 6371000 * pi / 2 \<and>
   calculateDistance 0 0 0 90 = 6371000 * pi / 2 \<and>
   getNearbyStops svc lat lon r =
     sort_key distance
       (map (\<lambda>s. \<lparr> ns_stop = s,
                    distance = Math_round (spec_haversine lat lon (stopLat s) (stopLon s)) \<rparr>)
          (filter (\<lambda>s. spec_haversine lat lon (stopLat s) (stopLon s) \<le> r)
             (Map_values (stops svc)))) \<and>
   mset (map ns_stop (getNearbyStops svc lat lon r)) =
     mset (filter (\<lambda>s. spec_haversine lat lon (stopLat s) (stopLon s) \<le> r)
             (Map_values (stops svc))) \<and>
   map distance (getNearbyStops svc lat lon r) =
     map (\<lambda>e. Math_round (spec_haversine lat lon (stopLat (ns_stop e)) (stopLon (ns_stop e))))
       (getNearbyStops svc lat lon r) \<and>
   sorted (map distance (getNearbyStops svc lat lon r)) \<and>
   real_of_int (Math_round x) \<le> x + 1 / 2 \<and> x + 1 / 2 < real_of_int (Math_round x) + 1 \<and>
   \<bar>real_of_int (Math_round x) - x\<bar> \<le> 1 / 2"
proof -
  let ?mk = "\<lambda>s. \<lparr> ns_stop = s,
                    distance = Math_round (spec_haversine lat lon (stopLat s) (stopLon s)) \<rparr>"
  let ?near = "filter (\<lambda>s. spec_haversine lat lon (stopLat s) (stopLon s) \<le> r)
             (Map_values (stops svc))"
  have eq: "getNearbyStops svc lat lon r = sort_key distance (map ?mk ?near)"
    by (simp add: getNearbyStops_def scanStops_eq calculateDistance_spec)
  have "mset (map ns_stop (getNearbyStops svc lat lon r)) = image_mset ns_stop (mset (map ?mk ?near))"
    unfolding eq by simp
  also have "\<dots> = mset ?near" by (simp add: image_mset.compositionality comp_def)
  finally have ms: "mset (map ns_stop (getNearbyStops svc lat lon r)) = mset ?near" .
  have "\<forall>e \<in> set (map ?mk ?near).
      distance e = Math_round (spec_haversine lat lon (stopLat (ns_stop e)) (stopLon (ns_stop e)))"
    by auto
  then have "\<forall>e \<in> set (getNearbyStops svc lat lon r).
      distance e = Math_round (spec_haversine lat lon (stopLat (ns_stop e)) (stopLon (ns_stop e)))"
    unfolding eq by simp
  then have rd: "map distance (getNearbyStops svc lat lon r) =
     map (\<lambda>e. Math_round (spec_haversine lat lon (stopLat (ns_stop e)) (stopLon (ns_stop e))))
       (getNearbyStops svc lat lon r)"
    by simp
  have srt: "sorted (map distance (getNearbyStops svc lat lon r))"
    unfolding eq by (rule sorted_sort_key)
  have c1: "calculateDistance 0 0 90 0 = 6371000 * pi / 2"
    unfolding calculateDistance_spec by (rule spec_haversine_quarter)
  have c2: "calculateDistance 0 0 0 90 = 6371000 * pi / 2"
    unfolding calculateDistance_spec by (rule spec_haversine_quarter)
  show ?thesis
    using eq ms rd srt Math_round_nearest [of x] Math_round_bounds [of x]
      calculateDistance_spec [of lat1 lon1 lat2 lon2] c1 c2
    by blast
qed

text \<open>
  C6 as stated fails at radius 0: a stop at the very point asked for is at distance 0,
  which is not more than the radius, and is returned.
\<close>

theorem radius_zero_counterexample:
  "getNearbyStops
     \<lparr> routes = [], trips = [],
       stops = [(''100'', \<lparr> stop_stopId = ''100'', stopName = ''Douglas at Yates'', stopDesc = None,
                             stopLat = 48, stopLon = - 123, stopCode = None \<rparr>)],
       stopTimes = [] \<rparr>
     48 (- 123) 0
   = [\<lparr> ns_stop = \<lparr> stop_stopId = ''100'', stopName = ''Douglas at Yates'', stopDesc = None,
                      stopLat = 48, stopLon = - 123, stopCode = None \<rparr>,
        distance = 0 \<rparr>]"
  by (simp add: getNearbyStops_def scanStops_def calculateDistance_same Math_round_def)

text \<open>
  C6, amended. A negative radius gives the empty list. The radius 0 gives the stops at
  distance 0 from the given point, each with the distance 0, in the order of the stop
  index.
\<close>

theorem getNearbyStops_nonpositive_radius:
  "(r < 0 \<longrightarrow> getNearbyStops svc lat lon r = []) \<and>
   (r = 0 \<longrightarrow> getNearbyStops svc lat lon r =
      map (\<lambda>s. \<lparr> ns_stop = s, distance = 0 \<rparr>)
        (filter (\<lambda>s. calculateDistance lat lon (stopLat s) (stopLon s) = 0) (Map_values (stops svc))))"
proof (intro conjI impI)
  assume neg: "r < 0"
  have "\<not> calculateDistance lat lon (stopLat s) (stopLon s) \<le> r" for s :: GTFSStop
    using neg calculateDistance_nonneg [of lat lon "stopLat s" "stopLon s"] by linarith
  then have "filter (\<lambda>s. calculateDistance lat lon (stopLat s) (stopLon s) \<le> r)
      (Map_values (stops svc)) = []"
    by (simp add: filter_empty_conv)
  then show "getNearbyStops svc lat lon r = []"
    by (simp add: getNearbyStops_def scanStops_eq)
next
  assume zero: "r = 0"
  let ?z = "filter (\<lambda>s. calculateDistance lat lon (stopLat s) (stopLon s) = 0) (Map_values (stops svc))"
  have le: "calculateDistance lat lon (stopLat s) (stopLon s) \<le> 0 \<longleftrightarrow>
      calculateDistance lat lon (stopLat s) (stopLon s) = 0" for s :: GTFSStop
    using calculateDistance_nonneg [of lat lon "stopLat s" "stopLon s"] by linarith
  have m: "map (\<lambda>s. \<lparr> ns_stop = s,
                 distance = Math_round (calculateDistance lat lon (stopLat s) (stopLon s)) \<rparr>) ?z
      = map (\<lambda>s. \<lparr> ns_stop = s, distance = 0 \<rparr>) ?z"
    by (simp add: Math_round_def)
  have "scanStops lat lon r (stops svc) = map (\<lambda>s. \<lparr> ns_stop = s, distance = 0 \<rparr>) ?z"
    unfolding scanStops_eq zero le m ..
  moreover have "sort_key distance (map (\<lambda>s. \<lparr> ns_stop = s, distance = 0 \<rparr>) ?z)
      = map (\<lambda>s. \<lparr> ns_stop = s, distance = 0 \<rparr>) ?z"
    by (rule sort_key_const [where c = 0]) auto
  ultimately show "getNearbyStops svc lat lon r = map (\<lambda>s. \<lparr> ns_stop = s, distance = 0 \<rparr>) ?z"
    by (simp add: getNearbyStops_def)
qed

theorem getNearbyStops_nonpositive_radius_witness:
  "getNearbyStops
     \<lparr> routes = [], trips = [],
       stops = [(''100'', \<lparr> stop_stopId = ''100'', stopName = ''Douglas at Yates'', stopDesc = None,
                             stopLat = 48, stopLon = - 123, stopCode = None \<rparr>)],
       stopTimes = [] \<rparr>
     48 (- 123) (- 1) = [] \<and>
   getNearbyStops
     \<lparr> routes = [], trips = [],
       stops = [(''100'', \<lparr> stop_stopId = ''100'', stopName = ''Douglas at Yates'', stopDesc = None,
                             stopLat = 48, stopLon = - 123, stopCode = None \<rparr>)],
       stopTimes = [] \<rparr>
     48 (- 123) 0
   = [\<lparr> ns_stop = \<lparr> stop_stopId = ''100'', stopName = ''Douglas at Yates'', stopDesc = None,
                      stopLat = 48, stopLon = - 123, stopCode = None \<rparr>,
        distance = 0 \<rparr>]"
  using
    getNearbyStops_nonpositive_radius [where r = "- 1" and lat = 48 and lon = "- 123"
      and svc = "\<lparr> routes = [], trips = [],
       stops = [(''100'', \<lparr> stop_stopId = ''100'', stopName = ''Douglas at Yates'', stopDesc = None,
                             stopLat = 48, stopLon = - 123, stopCode = None \<rparr>)],
       stopTimes = [] \<rparr>"]
    getNearbyStops_nonpositive_radius [where r = 0 and lat = 48 and lon = "- 123"
      and svc = "\<lparr> routes = [], trips = [],
       stops = [(''100'', \<lparr> stop_stopId = ''100'', stopName = ''Douglas at Yates'', stopDesc = None,
                             stopLat = 48, stopLon = - 123, stopCode = None \<rparr>)],
       stopTimes = [] \<rparr>"]
  by (simp add: Map_values_def calculateDistance_same)

end
